theory Spec2Isabelle
  imports Complex_Main "HOL-Library.Word"
begin

section \<open>JavaScript strings and values\<close>

text \<open>
  Strings are byte lists (UTF-8). Every pattern the program searches for or replaces is
  ASCII, so a match on the bytes is a match on the UTF-16 code units of the JavaScript
  string and conversely.
\<close>

text \<open>\<^verbatim>\<open>s.startsWith(pat)\<close>: used below to find the first occurrence of a pattern.\<close>

fun startsWith :: "string \<Rightarrow> string \<Rightarrow> bool" where
  "startsWith s [] = True"
| "startsWith [] (p # ps) = False"
| "startsWith (c # cs) (p # ps) = (c = p \<and> startsWith cs ps)"

text \<open>\<^verbatim>\<open>s.includes(pat)\<close>: \<open>pat\<close> occurs in \<open>s\<close> as a contiguous substring.\<close>

fun str_includes :: "string \<Rightarrow> string \<Rightarrow> bool" where
  "str_includes [] pat = (pat = [])"
| "str_includes (c # cs) pat = (startsWith (c # cs) pat \<or> str_includes cs pat)"

text \<open>
  \<^verbatim>\<open>s.replace(pat, rep)\<close> with a string pattern: the first occurrence of \<open>pat\<close> is
  replaced. No replacement text of the program contains a dollar sign, so the
  replacement is inserted literally.
\<close>

fun str_replace :: "string \<Rightarrow> string \<Rightarrow> string \<Rightarrow> string" where
  "str_replace [] pat rep = (if pat = [] then rep else [])"
| "str_replace (c # cs) pat rep =
     (if startsWith (c # cs) pat then rep @ drop (length pat) (c # cs)
      else c # str_replace cs pat rep)"

text \<open>\<^verbatim>\<open>dep.replace(/[@/]/g, '-')\<close>: every \<open>@\<close> and every \<open>/\<close> becomes \<open>-\<close>.\<close>

definition replace_at_slash :: "string \<Rightarrow> string" where
  "replace_at_slash s = map (\<lambda>c. if c = CHR ''@'' \<or> c = CHR ''/'' then CHR ''-'' else c) s"

text \<open>The decimal numeral of a natural number.\<close>

fun string_of_nat :: "nat \<Rightarrow> string" where
  "string_of_nat n =
     (if n < 10 then [''0123456789'' ! n]
      else string_of_nat (n div 10) @ [''0123456789'' ! (n mod 10)])"

text \<open>
  A JavaScript number. \<open>JSafe neg m\<close> is the integer of magnitude \<open>m\<close>, below \<open>2 ^ 53\<close>,
  negative when \<open>neg\<close> holds (\<open>JSafe True 0\<close> is the negative zero). \<open>JOther t\<close> is any
  other number (a fraction, an integer of larger magnitude, \<open>NaN\<close>, an infinity), with
  \<open>t\<close> the text its string conversion yields.
\<close>

datatype jsnumber = JSafe bool "53 word" | JOther string

text \<open>
  The string conversion of a number, as template interpolation applies it: an integer
  below \<open>2 ^ 53\<close> in magnitude gives its decimal numeral, and both zeros give \<open>0\<close>.
\<close>

fun number_to_string :: "jsnumber \<Rightarrow> string" where
  "number_to_string (JSafe neg m) =
     (if neg \<and> m \<noteq> 0 then CHR ''-'' # string_of_nat (unat m) else string_of_nat (unat m))"
| "number_to_string (JOther t) = t"

text \<open>A number is falsy when it is a zero or \<open>NaN\<close>.\<close>

fun number_truthy :: "jsnumber \<Rightarrow> bool" where
  "number_truthy (JSafe neg m) = (m \<noteq> 0)"
| "number_truthy (JOther t) = (t \<noteq> ''NaN'')"

text \<open>
  The values a provider's \<open>props\<close> may hold. The program only tests them for truthiness
  (\<^verbatim>\<open>v || default\<close>) and interpolates them into a template. \<open>JObj t\<close> is any object,
  array or function, with \<open>t\<close> the text its string conversion yields.
\<close>

datatype jsvalue = JUndefined | JNull | JBool bool | JNum jsnumber | JStr string | JObj string

fun truthy :: "jsvalue \<Rightarrow> bool" where
  "truthy JUndefined = False"
| "truthy JNull = False"
| "truthy (JBool b) = b"
| "truthy (JNum n) = number_truthy n"
| "truthy (JStr s) = (s \<noteq> [])"
| "truthy (JObj t) = True"

fun toString :: "jsvalue \<Rightarrow> string" where
  "toString JUndefined = ''undefined''"
| "toString JNull = ''null''"
| "toString (JBool b) = (if b then ''true'' else ''false'')"
| "toString (JNum n) = number_to_string n"
| "toString (JStr s) = s"
| "toString (JObj t) = t"

text \<open>\<^verbatim>\<open>props.key\<close>: a missing key reads as \<open>undefined\<close>.\<close>

definition get_prop :: "(string \<times> jsvalue) list \<Rightarrow> string \<Rightarrow> jsvalue" where
  "get_prop props key = (case map_of props key of None \<Rightarrow> JUndefined | Some v \<Rightarrow> v)"

text \<open>\<^verbatim>\<open>${v || dflt}\<close> inside a template literal.\<close>

definition or_default :: "jsvalue \<Rightarrow> string \<Rightarrow> string" where
  "or_default v dflt = (if truthy v then toString v else dflt)"

section \<open>Core types (migration-engine.ts)\<close>

datatype import_type = T_privy | T_reown | T_web3modal | T_wagmi | T_para | T_other

record FileImport =
  imp_file :: string
  imp_line :: jsnumber
  imp_import :: string
  imp_from :: string
  imp_type :: import_type

record ProviderUsage =
  pu_file :: string
  pu_line :: jsnumber
  pu_provider :: string
  pu_props :: "(string \<times> jsvalue) list"
  pu_active :: bool

record HookUsage =
  hu_file :: string
  hu_line :: jsnumber
  hu_hook :: string
  hu_from :: string
  hu_usage :: string

record StyleImport =
  si_file :: string
  si_line :: jsnumber
  si_import :: string
  isParaStyle :: bool

text \<open>
  \<open>dependencies\<close> is a JavaScript object from package name to version; it is kept as the
  list of its entries in \<^verbatim>\<open>Object.keys\<close> order.
\<close>

record ProjectState =
  dependencies :: "(string \<times> string) list"
  st_imports :: "FileImport list"
  providers :: "ProviderUsage list"
  hooks :: "HookUsage list"
  styles :: "StyleImport list"
  entryPoints :: "string list"

text \<open>\<^verbatim>\<open>Object.keys(state.dependencies)\<close>\<close>

definition dependency_keys :: "ProjectState \<Rightarrow> string list" where
  "dependency_keys st = map fst (dependencies st)"

datatype op_type = Dependency | Import | Provider | Hook | Style

record ReplacementOperation =
  op_id :: string
  op_type :: op_type
  op_file :: "string option"
  op_line :: "jsnumber option"
  oldValue :: string
  newValue :: string
  critical :: bool

datatype severity = Critical | Warning | Info

record ValidationIssue =
  severity :: severity
  code :: string
  message :: string
  issue_file :: "string option"
  issue_line :: "jsnumber option"
  issue_fix :: "string option"

record ValidationResult =
  valid :: bool
  issues :: "ValidationIssue list"
  warnings :: "string list"

datatype MigrationStrategy =
  PRIVY_TO_PARA | REOWN_TO_PARA | WEB3MODAL_TO_PARA | WALLETCONNECT_TO_PARA

text \<open>The string value of each member of the enum.\<close>

fun strategy_value :: "MigrationStrategy \<Rightarrow> string" where
  "strategy_value PRIVY_TO_PARA = ''privy-to-para''"
| "strategy_value REOWN_TO_PARA = ''reown-to-para''"
| "strategy_value WEB3MODAL_TO_PARA = ''web3modal-to-para''"
| "strategy_value WALLETCONNECT_TO_PARA = ''walletconnect-to-para''"

section \<open>Strategy factory (replacement-strategy.ts)\<close>

datatype ReplacementStrategy = PrivyToParaStrategy | ReownToParaStrategy | Web3ModalToParaStrategy

text \<open>\<open>createStrategy\<close>: the \<open>default\<close> branch of the switch throws.\<close>

fun createStrategy :: "MigrationStrategy \<Rightarrow> string + ReplacementStrategy" where
  "createStrategy PRIVY_TO_PARA = Inr PrivyToParaStrategy"
| "createStrategy REOWN_TO_PARA = Inr ReownToParaStrategy"
| "createStrategy WEB3MODAL_TO_PARA = Inr Web3ModalToParaStrategy"
| "createStrategy s = Inl (''Unsupported migration strategy: '' @ strategy_value s)"

text \<open>\<open>detectStrategy\<close>: three tests in sequence, \<open>null\<close> (here \<open>None\<close>) when all fail.\<close>

definition detectStrategy :: "ProjectState \<Rightarrow> MigrationStrategy option" where
  "detectStrategy st =
     (let deps = dependency_keys st;
          imps = map imp_from (st_imports st)
      in if ''@privy-io/react-auth'' \<in> set deps \<or> list_ex (\<lambda>i. str_includes i ''privy'') imps
         then Some PRIVY_TO_PARA
         else if list_ex (\<lambda>d. str_includes d ''reown'') deps
                 \<or> list_ex (\<lambda>i. str_includes i ''reown'') imps
         then Some REOWN_TO_PARA
         else if list_ex (\<lambda>d. str_includes d ''web3modal'') deps
                 \<or> list_ex (\<lambda>i. str_includes i ''web3modal'') imps
         then Some WEB3MODAL_TO_PARA
         else None)"

section \<open>Atomic validator\<close>

definition empty_result :: ValidationResult where
  "empty_result = \<lparr>valid = True, issues = [], warnings = []\<rparr>"

definition checkMigratableContent :: "ProjectState \<Rightarrow> ValidationResult" where
  "checkMigratableContent st =
     (let result = empty_result;
          oldWalletDeps = filter (\<lambda>dep. str_includes dep ''privy'' \<or> str_includes dep ''reown''
                                      \<or> str_includes dep ''web3modal''
                                      \<or> str_includes dep ''walletconnect'')
                                 (dependency_keys st)
      in if length oldWalletDeps = 0
         then result\<lparr>valid := False,
                     issues := issues result @
                       [\<lparr>severity = Critical, code = ''NO_MIGRATABLE_CONTENT'',
                         message = ''No wallet providers detected for migration'',
                         issue_file = None, issue_line = None,
                         issue_fix = Some ''Ensure the project uses Privy, ReOwn, Web3Modal, or WalletConnect''\<rparr>]\<rparr>
         else result)"

definition checkProjectStructure :: "ProjectState \<Rightarrow> ValidationResult" where
  "checkProjectStructure st =
     (let result = empty_result
      in if length (entryPoints st) = 0
         then result\<lparr>valid := False,
                     issues := issues result @
                       [\<lparr>severity = Critical, code = ''NO_ENTRY_POINTS'',
                         message = ''No entry points detected (main.tsx, App.tsx, index.tsx)'',
                         issue_file = None, issue_line = None,
                         issue_fix = Some ''Ensure project has a valid React entry point''\<rparr>]\<rparr>
         else result)"

definition checkForConflicts :: "ProjectState \<Rightarrow> ValidationResult" where
  "checkForConflicts st =
     (let result = empty_result;
          hasParaDep = list_ex (\<lambda>dep. str_includes dep ''para'') (dependency_keys st)
      in if hasParaDep
         then result\<lparr>warnings := warnings result @
                [''Para SDK already present - migration may overwrite existing configuration'']\<rparr>
         else result)"

text \<open>
  The step that \<open>validatePreFlight\<close> repeats after each check: a failing check clears
  \<open>valid\<close> and appends its issues; nothing else of the check is copied.
\<close>

definition absorb :: "ValidationResult \<Rightarrow> ValidationResult \<Rightarrow> ValidationResult" where
  "absorb result check =
     (if \<not> valid check then result\<lparr>valid := False, issues := issues result @ issues check\<rparr>
      else result)"

definition validatePreFlight :: "ProjectState \<Rightarrow> ValidationResult" where
  "validatePreFlight projectState =
     (let result = empty_result;
          hasMigratableContent = checkMigratableContent projectState;
          result = absorb result hasMigratableContent;
          hasValidStructure = checkProjectStructure projectState;
          result = absorb result hasValidStructure;
          conflictCheck = checkForConflicts projectState;
          result = absorb result conflictCheck
      in result)"

text \<open>\<^verbatim>\<open>Math.round\<close>: the nearest integer, halves upwards.\<close>

definition Math_round :: "rat \<Rightarrow> int" where
  "Math_round x = \<lfloor>x + 1 / 2\<rfloor>"

text \<open>
  \<open>calculateMigrationSuccess\<close>. The quotient \<^verbatim>\<open>(score / maxScore) * 100\<close> is taken
  exactly; in double precision it differs from the exact value by far less than one half,
  so \<^verbatim>\<open>Math.round\<close> returns the same integer.
\<close>

definition calculateMigrationSuccess :: "ProjectState \<Rightarrow> int" where
  "calculateMigrationSuccess st =
     (let score = (0::int);
          maxScore = (100::int);
          hasParaDep = list_ex (\<lambda>dep. str_includes dep ''para'') (dependency_keys st);
          hasOldDeps = list_ex (\<lambda>dep. str_includes dep ''privy'' \<or> str_includes dep ''reown''
                                     \<or> str_includes dep ''web3modal'') (dependency_keys st);
          score = (if hasParaDep then score + 15 else score);
          score = (if \<not> hasOldDeps then score + 15 else score);
          hasParaImports = list_ex (\<lambda>imp. str_includes (imp_from imp) ''para'') (st_imports st);
          hasOldImports = list_ex (\<lambda>imp. imp_type imp = T_privy \<or> imp_type imp = T_reown
                                        \<or> imp_type imp = T_web3modal) (st_imports st);
          score = (if hasParaImports then score + 15 else score);
          score = (if \<not> hasOldImports then score + 10 else score);
          hasParaProvider = list_ex (\<lambda>p. pu_provider p = ''ParaProvider'') (providers st);
          hasParaModal = list_ex (\<lambda>imp. str_includes (imp_import imp) ''ParaModal'') (st_imports st);
          score = (if hasParaProvider then score + 15 else score);
          score = (if hasParaModal then score + 10 else score);
          hasParaCss = list_ex isParaStyle (styles st);
          score = (if hasParaCss then score + 10 else score);
          hasParaHooks = list_ex (\<lambda>hook. str_includes (hu_from hook) ''para'') (hooks st);
          score = (if hasParaHooks then score + 10 else score)
      in Math_round ((of_int score / of_int maxScore) * 100))"

section \<open>Replacement strategies (replacement-strategy.ts)\<close>

text \<open>The lines of a multi-line template literal, joined by line feeds.\<close>

fun join_lines :: "string list \<Rightarrow> string" where
  "join_lines [] = []"
| "join_lines [l] = l"
| "join_lines (l # ls) = l @ CHR 0x0A # join_lines ls"

text \<open>
  The warning sign and its variation selector in the comment line of the Para provider
  template, as UTF-8 bytes.
\<close>

definition warning_sign :: string where
  "warning_sign = [CHR 0xE2, CHR 0x9A, CHR 0xA0, CHR 0xEF, CHR 0xB8, CHR 0x8F]"

text \<open>The operations that all strategies share.\<close>

definition add_para_react :: ReplacementOperation where
  "add_para_react =
     \<lparr>op_id = ''add-para-react'', op_type = Dependency, op_file = None, op_line = None,
      oldValue = '''', newValue = ''@para-wallet/react'', critical = True\<rparr>"

definition remove_dependency :: "string \<Rightarrow> string \<Rightarrow> ReplacementOperation" where
  "remove_dependency ident dep =
     \<lparr>op_id = ident, op_type = Dependency, op_file = None, op_line = None,
      oldValue = dep, newValue = '''', critical = True\<rparr>"

definition add_para_css :: "string \<Rightarrow> ReplacementOperation" where
  "add_para_css entryPoint =
     \<lparr>op_id = ''add-para-css-'' @ entryPoint, op_type = Style, op_file = Some entryPoint,
      op_line = None, oldValue = '''',
      newValue = ''import '' @ [CHR 0x27] @ ''@para-wallet/react/styles.css'' @ [CHR 0x27],
      critical = True\<rparr>"

definition replace_import :: "FileImport \<Rightarrow> string \<Rightarrow> ReplacementOperation" where
  "replace_import importUsage new =
     \<lparr>op_id = ''replace-import-'' @ imp_file importUsage @ ''-'' @ number_to_string (imp_line importUsage),
      op_type = Import, op_file = Some (imp_file importUsage), op_line = Some (imp_line importUsage),
      oldValue = imp_import importUsage, newValue = new, critical = True\<rparr>"

definition replace_provider :: "ProviderUsage \<Rightarrow> string \<Rightarrow> string \<Rightarrow> ReplacementOperation" where
  "replace_provider provider old new =
     \<lparr>op_id = ''replace-provider-'' @ pu_file provider @ ''-'' @ number_to_string (pu_line provider),
      op_type = Provider, op_file = Some (pu_file provider), op_line = Some (pu_line provider),
      oldValue = old, newValue = new, critical = True\<rparr>"

definition replace_hook :: "HookUsage \<Rightarrow> string \<Rightarrow> ReplacementOperation" where
  "replace_hook hook replaced =
     \<lparr>op_id = ''replace-hook-'' @ hu_file hook @ ''-'' @ number_to_string (hu_line hook),
      op_type = Hook, op_file = Some (hu_file hook), op_line = Some (hu_line hook),
      oldValue = hu_usage hook, newValue = replaced,
      critical = False\<rparr>"

subsection \<open>PrivyToParaStrategy\<close>

definition privy_getParaImportReplacement :: "string \<Rightarrow> string" where
  "privy_getParaImportReplacement privyImport =
     (if str_includes privyImport ''usePrivy'' then str_replace privyImport ''usePrivy'' ''useAccount''
      else if str_includes privyImport ''useWallets'' then str_replace privyImport ''useWallets'' ''useWallet''
      else if str_includes privyImport ''useLogin'' then str_replace privyImport ''useLogin'' ''useConnect''
      else if str_includes privyImport ''useLogout'' then str_replace privyImport ''useLogout'' ''useDisconnect''
      else if str_includes privyImport ''PrivyProvider''
           then str_replace privyImport ''PrivyProvider'' ''ParaProvider, ParaModal''
      else str_replace privyImport ''@privy-io/react-auth'' ''@para-wallet/react'')"

text \<open>\<open>HOOK_REPLACEMENT_MAP['privy-to-para']\<close>: the own properties of the table.\<close>

definition privy_hook_map :: "(string \<times> string) list" where
  "privy_hook_map =
     [(''usePrivy'', ''useAccount''), (''useWallets'', ''useWallet''), (''useLogin'', ''useConnect''),
      (''useLogout'', ''useDisconnect''), (''useEmbeddedWallet'', ''useWallet'')]"

text \<open>
  The table is an object literal, so an index expression on it also finds the members
  that every object inherits from \<^verbatim>\<open>Object.prototype\<close>: eleven functions and the
  accessor \<^verbatim>\<open>__proto__\<close>, which yields the prototype object. All of them are truthy.
\<close>

definition object_prototype_members :: "string list" where
  "object_prototype_members =
     [''constructor'', ''__defineGetter__'', ''__defineSetter__'', ''hasOwnProperty'',
      ''__lookupGetter__'', ''__lookupSetter__'', ''isPrototypeOf'', ''propertyIsEnumerable'',
      ''toString'', ''valueOf'', ''__proto__'', ''toLocaleString'']"

text \<open>
  What \<^verbatim>\<open>replacements[privyHook] || null\<close> yields: \<open>Mapped\<close> a string of the table,
  \<open>Inherited\<close> the inherited member of that name, or \<open>None\<close> for \<open>null\<close>.
\<close>

datatype hook_replacement = Mapped string | Inherited string

definition privy_getHookReplacement :: "string \<Rightarrow> hook_replacement option" where
  "privy_getHookReplacement privyHook =
     (case map_of privy_hook_map privyHook of
        Some newHook \<Rightarrow> Some (Mapped newHook)
      | None \<Rightarrow> if privyHook \<in> set object_prototype_members
                then Some (Inherited privyHook) else None)"

text \<open>
  \<^verbatim>\<open>usage.replace(hook, newHook)\<close>. A string replaces the first occurrence of the hook
  name. The prototype object is not callable and is converted to the string
  \<^verbatim>\<open>[object Object]\<close>. An inherited function is called, with \<open>this\<close> undefined and the
  hook name as first argument, only when the usage contains the hook name:
  \<^verbatim>\<open>Object\<close> returns a wrapper of the hook name, whose text is the hook name;
  \<^verbatim>\<open>toString\<close> returns \<^verbatim>\<open>[object Undefined]\<close>; \<^verbatim>\<open>isPrototypeOf\<close> returns
  \<open>false\<close> for an argument that is not an object; every other one converts \<open>this\<close> to
  an object first and throws a \<open>TypeError\<close>.
\<close>

fun replace_by :: "string \<Rightarrow> string \<Rightarrow> hook_replacement \<Rightarrow> string + string" where
  "replace_by usage hook (Mapped newHook) = Inr (str_replace usage hook newHook)"
| "replace_by usage hook (Inherited member) =
     (if member = ''__proto__'' then Inr (str_replace usage hook ''[object Object]'')
      else if \<not> str_includes usage hook then Inr usage
      else if member = ''constructor'' then Inr (str_replace usage hook hook)
      else if member = ''toString'' then Inr (str_replace usage hook ''[object Undefined]'')
      else if member = ''isPrototypeOf'' then Inr (str_replace usage hook ''false'')
      else Inl ''TypeError: Cannot convert undefined or null to object'')"

text \<open>
  The loop over the hook usages sourced from Privy: an operation for every hook with a
  replacement; a \<open>TypeError\<close> leaves \<open>execute\<close>.
\<close>

fun privy_hook_operations :: "HookUsage list \<Rightarrow> string + ReplacementOperation list" where
  "privy_hook_operations [] = Inr []"
| "privy_hook_operations (hook # rest) =
     (case privy_getHookReplacement (hu_hook hook) of
        None \<Rightarrow> privy_hook_operations rest
      | Some newHook \<Rightarrow>
          (case replace_by (hu_usage hook) (hu_hook hook) newHook of
             Inl e \<Rightarrow> Inl e
           | Inr replaced \<Rightarrow>
               (case privy_hook_operations rest of
                  Inl e \<Rightarrow> Inl e
                | Inr operations \<Rightarrow> Inr (replace_hook hook replaced # operations))))"

definition generatePrivyProvider :: "(string \<times> jsvalue) list \<Rightarrow> string" where
  "generatePrivyProvider props = join_lines
     [''<PrivyProvider'',
      ''  appId={'' @ or_default (get_prop props ''appId'') ''PRIVY_APP_ID'' @ ''}'',
      ''  clientId={'' @ or_default (get_prop props ''clientId'') ''PRIVY_CLIENT_ID'' @ ''}'',
      ''  config={{...}}'',
      ''>'',
      ''  {children}'',
      ''</PrivyProvider>'']"

definition privy_generateParaProvider :: "(string \<times> jsvalue) list \<Rightarrow> string" where
  "privy_generateParaProvider props = join_lines
     [''<ParaProvider'',
      ''  config={{'',
      ''    apiKey: '' @ or_default (get_prop props ''appId'') ''PARA_API_KEY'' @ '','',
      ''    paraClientConfig: {'',
      ''      env: Environment.DEVELOPMENT,'',
      ''    },'',
      ''    embeddedWalletConfig: {'',
      ''      createOnLogin: '' @ [CHR 0x22] @ ''all-users'' @ [CHR 0x22] @ '','',
      ''      showWalletUiOnLogin: true,'',
      ''    }'',
      ''  }}'',
      ''>'',
      ''  {children}'',
      ''  {/* '' @ warning_sign @ '' CRITICAL: ParaModal is REQUIRED - #1 missing piece in failed migrations */}'',
      ''  <ParaModal />'',
      ''</ParaProvider>'']"

text \<open>\<open>execute\<close> of the Privy strategy: \<open>Inr\<close> the operations, or \<open>Inl\<close> the error thrown.\<close>

definition privy_execute :: "ProjectState \<Rightarrow> string + ReplacementOperation list" where
  "privy_execute st =
     (case privy_hook_operations (filter (\<lambda>h. str_includes (hu_from h) ''privy'') (hooks st)) of
        Inl e \<Rightarrow> Inl e
      | Inr hookOperations \<Rightarrow>
          Inr ([remove_dependency ''remove-privy-deps'' ''@privy-io/react-auth'',
                remove_dependency ''remove-privy-wagmi'' ''@privy-io/wagmi'',
                add_para_react]
               @ map (\<lambda>importUsage. replace_import importUsage
                          (privy_getParaImportReplacement (imp_import importUsage)))
                     (filter (\<lambda>i. imp_type i = T_privy) (st_imports st))
               @ map (\<lambda>provider. replace_provider provider
                          (generatePrivyProvider (pu_props provider))
                          (privy_generateParaProvider (pu_props provider)))
                     (filter (\<lambda>p. pu_provider p = ''PrivyProvider'') (providers st))
               @ hookOperations
               @ map add_para_css (entryPoints st)))"

subsection \<open>ReownToParaStrategy\<close>

definition reownDependencies :: "string list" where
  "reownDependencies =
     [''@reown/appkit'', ''@reown/appkit-adapter-wagmi'', ''@reown/appkit-react'',
      ''@reown/appkit-siwe'', ''@web3modal/wagmi'', ''@web3modal/siwe'', ''@web3modal/ethereum'']"

definition packageMappings :: "(string \<times> string) list" where
  "packageMappings =
     [(''@reown/appkit'', ''@para-wallet/react''),
      (''@reown/appkit-react'', ''@para-wallet/react''),
      (''@reown/appkit-adapter-wagmi'', ''@para-wallet/react''),
      (''@web3modal/wagmi'', ''@para-wallet/react''),
      (''@web3modal/siwe'', ''@para-wallet/react''),
      (''@web3modal/ethereum'', ''@para-wallet/react'')]"

text \<open>The loop over \<open>packageMappings\<close>: the first package the import contains is replaced.\<close>

fun replace_package :: "(string \<times> string) list \<Rightarrow> string \<Rightarrow> string" where
  "replace_package [] reownImport = reownImport"
| "replace_package ((oldPkg, newPkg) # rest) reownImport =
     (if str_includes reownImport oldPkg then str_replace reownImport oldPkg newPkg
      else replace_package rest reownImport)"

definition reown_getParaImportReplacement :: "string \<Rightarrow> string" where
  "reown_getParaImportReplacement reownImport =
     (if str_includes reownImport ''useAppKit'' then str_replace reownImport ''useAppKit'' ''useModal''
      else if str_includes reownImport ''useAppKitAccount''
           then str_replace reownImport ''useAppKitAccount'' ''useAccount''
      else if str_includes reownImport ''useAppKitTheme''
           then str_replace reownImport ''useAppKitTheme'' ''useModal''
      else if str_includes reownImport ''useAppKitState''
           then str_replace reownImport ''useAppKitState'' ''useAccount''
      else if str_includes reownImport ''useAppKitEvents''
           then str_replace reownImport ''useAppKitEvents'' ''useWallet''
      else if str_includes reownImport ''useWeb3Modal''
           then str_replace reownImport ''useWeb3Modal'' ''useModal''
      else if str_includes reownImport ''useWeb3ModalAccount''
           then str_replace reownImport ''useWeb3ModalAccount'' ''useAccount''
      else if str_includes reownImport ''useWeb3ModalTheme''
           then str_replace reownImport ''useWeb3ModalTheme'' ''useModal''
      else if str_includes reownImport ''createAppKit''
           then str_replace reownImport ''createAppKit'' ''ParaProvider, ParaModal''
      else if str_includes reownImport ''createWeb3Modal''
           then str_replace reownImport ''createWeb3Modal'' ''ParaProvider, ParaModal''
      else if str_includes reownImport ''defaultWagmiConfig''
           then str_replace reownImport ''defaultWagmiConfig'' ''wagmiConfig''
      else replace_package packageMappings reownImport)"

definition generateReownProvider :: "ProviderUsage \<Rightarrow> string" where
  "generateReownProvider provider =
     (if str_includes (pu_provider provider) ''AppKit'' then join_lines
        [''<AppKit '',
         ''  projectId='' @ [CHR 0x22]
            @ or_default (get_prop (pu_props provider) ''projectId'') ''REOWN_PROJECT_ID'' @ [CHR 0x22],
         ''  wagmiConfig={wagmiConfig}'',
         ''  metadata={metadata}'',
         ''>'',
         ''  {children}'',
         ''</AppKit>'']
      else if str_includes (pu_provider provider) ''Web3Modal'' then join_lines
        [''<Web3Modal '',
         ''  projectId='' @ [CHR 0x22]
            @ or_default (get_prop (pu_props provider) ''projectId'') ''WEB3MODAL_PROJECT_ID'' @ [CHR 0x22],
         ''  wagmiConfig={wagmiConfig}'',
         ''>'',
         ''  {children}'',
         ''</Web3Modal>'']
      else pu_provider provider @ '' config={...}>{children}</'' @ pu_provider provider @ ''>'')"

definition reown_generateParaProvider :: "(string \<times> jsvalue) list \<Rightarrow> string" where
  "reown_generateParaProvider props = join_lines
     [''<ParaProvider'',
      ''  config={{'',
      ''    apiKey: '' @ or_default (get_prop props ''projectId'') ''PARA_API_KEY'' @ '','',
      ''    paraClientConfig: {'',
      ''      env: Environment.DEVELOPMENT,'',
      ''    },'',
      ''    embeddedWalletConfig: {'',
      ''      createOnLogin: '' @ [CHR 0x22] @ ''all-users'' @ [CHR 0x22] @ '','',
      ''      showWalletUiOnLogin: true,'',
      ''    },'',
      ''    wagmiConfig // Keep existing Wagmi config'',
      ''  }}'',
      ''>'',
      ''  {children}'',
      ''  {/* '' @ warning_sign @ '' CRITICAL: ParaModal is REQUIRED - #1 missing piece in failed migrations */}'',
      ''  <ParaModal />'',
      ''</ParaProvider>'']"

definition reownHooks :: "string list" where
  "reownHooks =
     [''useAppKit'', ''useAppKitAccount'', ''useAppKitTheme'', ''useAppKitState'', ''useAppKitEvents'',
      ''useWeb3Modal'', ''useWeb3ModalAccount'', ''useWeb3ModalTheme'', ''useWeb3ModalState'']"

definition isReownHook :: "string \<Rightarrow> bool" where
  "isReownHook hookName = (hookName \<in> set reownHooks)"

definition reown_hook_map :: "(string \<times> string) list" where
  "reown_hook_map =
     [(''useAppKit'', ''useModal''), (''useAppKitAccount'', ''useAccount''),
      (''useAppKitTheme'', ''useModal''), (''useAppKitState'', ''useAccount''),
      (''useAppKitEvents'', ''useWallet''), (''useWeb3Modal'', ''useModal''),
      (''useWeb3ModalAccount'', ''useAccount''), (''useWeb3ModalTheme'', ''useModal''),
      (''useWeb3ModalState'', ''useAccount'')]"

text \<open>
  \<open>getReownHookReplacement\<close> is only called for the names that \<open>isReownHook\<close> accepts,
  all of them own properties of its table.
\<close>

definition getReownHookReplacement :: "string \<Rightarrow> string option" where
  "getReownHookReplacement reownHook = map_of reown_hook_map reownHook"

definition reown_execute :: "ProjectState \<Rightarrow> ReplacementOperation list" where
  "reown_execute st =
     map (\<lambda>dep. remove_dependency (''remove-'' @ replace_at_slash dep) dep)
         (filter (\<lambda>dep. dep \<in> set (dependency_keys st)) reownDependencies)
     @ [add_para_react]
     @ map (\<lambda>importUsage. replace_import importUsage
                (reown_getParaImportReplacement (imp_import importUsage)))
           (filter (\<lambda>i. imp_type i = T_reown \<or> str_includes (imp_from i) ''reown''
                          \<or> str_includes (imp_from i) ''web3modal'') (st_imports st))
     @ map (\<lambda>provider. replace_provider provider
                (generateReownProvider provider)
                (reown_generateParaProvider (pu_props provider)))
           (filter (\<lambda>p. str_includes (pu_provider p) ''AppKit''
                          \<or> str_includes (pu_provider p) ''Web3Modal''
                          \<or> str_includes (pu_provider p) ''createWeb3Modal'') (providers st))
     @ concat (map (\<lambda>hook. case getReownHookReplacement (hu_hook hook) of
                              None \<Rightarrow> []
                            | Some newHook \<Rightarrow>
                                [replace_hook hook
                                   (str_replace (hu_usage hook) (hu_hook hook) newHook)])
                   (filter (\<lambda>h. isReownHook (hu_hook h)) (hooks st)))
     @ map add_para_css (entryPoints st)"

subsection \<open>Web3ModalToParaStrategy\<close>

definition web3modal_execute :: "ProjectState \<Rightarrow> ReplacementOperation list" where
  "web3modal_execute st =
     [remove_dependency ''remove-web3modal-wagmi'' ''@web3modal/wagmi'',
      remove_dependency ''remove-web3modal-siwe'' ''@web3modal/siwe'',
      add_para_react]"

text \<open>
  \<open>strategy.execute(state)\<close>, dispatched on the class of the strategy object: \<open>Inr\<close> the
  operations it resolves to, \<open>Inl\<close> the error it rejects with.
\<close>

fun execute :: "ReplacementStrategy \<Rightarrow> ProjectState \<Rightarrow> string + ReplacementOperation list" where
  "execute PrivyToParaStrategy st = privy_execute st"
| "execute ReownToParaStrategy st = Inr (reown_execute st)"
| "execute Web3ModalToParaStrategy st = Inr (web3modal_execute st)"

section \<open>Migration engine (migration-engine.ts)\<close>

datatype validation_type = Pre | Post

text \<open>
  A validation check. Its \<open>validator\<close> is a closure without arguments that the engine
  calls at most once in a run: it is kept as the outcome of that call, \<open>Inr\<close> the
  validation result or \<open>Inl\<close> the text of the error it throws.
\<close>

record ValidationCheck =
  vc_id :: string
  vc_type :: validation_type
  description :: string
  validator :: "string + ValidationResult"

text \<open>
  A rollback operation. Its \<open>action\<close> is kept as the outcome of calling it: \<open>Inr ()\<close>
  when it completes, \<open>Inl\<close> the text of the value it throws.
\<close>

record RollbackOperation =
  operationId :: string
  action :: "string + unit"

record MigrationPlan =
  strategy :: MigrationStrategy
  replacements :: "ReplacementOperation list"
  validations :: "ValidationCheck list"
  rollbackPlan :: "RollbackOperation list"
  estimatedTime :: nat

record MigrationResult =
  success :: bool
  completedOperations :: "string list"
  failedOperations :: "string list"
  validationResults :: "ValidationResult list"
  rollbackExecuted :: bool
  duration :: int
  result_issues :: "ValidationIssue list"

text \<open>The private fields of a \<open>MigrationEngine\<close> object.\<close>

record MigrationEngine =
  this_state :: "ProjectState option"
  this_plan :: "MigrationPlan option"
  this_rollbackPlan :: "RollbackOperation list"

text \<open>A new engine: no state, no plan, an empty rollback plan.\<close>

definition new_engine :: MigrationEngine where
  "new_engine = \<lparr>this_state = None, this_plan = None, this_rollbackPlan = []\<rparr>"

text \<open>
  What a run does to the project, in order: \<open>Apply i\<close> is a call of \<open>executeOperation\<close>
  on the operation with id \<open>i\<close>, \<open>Undo i\<close> a call of the action of the rollback operation
  with \<open>operationId\<close> \<open>i\<close>.
\<close>

datatype event = Apply string | Undo string

record run =
  res :: MigrationResult
  trace :: "event list"

record outcome =
  final_result :: MigrationResult
  events :: "event list"
  engine :: MigrationEngine

subsection \<open>Planning\<close>

definition scanProjectState :: "string \<Rightarrow> MigrationEngine \<Rightarrow> ProjectState \<times> MigrationEngine" where
  "scanProjectState projectPath eng =
     (let state = \<lparr>dependencies = [], st_imports = [], providers = [], hooks = [], styles = [],
                   entryPoints = []\<rparr>
      in (state, eng\<lparr>this_state := Some state\<rparr>))"

text \<open>The five generators of \<open>generateReplacements\<close> are placeholders that return no operation.\<close>

definition generateReplacements :: "MigrationStrategy \<Rightarrow> ReplacementOperation list" where
  "generateReplacements strat = [] @ [] @ [] @ [] @ []"

text \<open>The validators of the generated checks are placeholders that return a valid result.\<close>

definition generateValidations :: "MigrationStrategy \<Rightarrow> ValidationCheck list" where
  "generateValidations strat =
     [\<lparr>vc_id = ''pre-dependencies'', vc_type = Pre,
       description = ''Check old dependencies are present'', validator = Inr empty_result\<rparr>,
      \<lparr>vc_id = ''post-para-modal'', vc_type = Post,
       description = ''Check ParaModal component is present'', validator = Inr empty_result\<rparr>,
      \<lparr>vc_id = ''post-css-imports'', vc_type = Post,
       description = ''Check Para CSS is imported'', validator = Inr empty_result\<rparr>,
      \<lparr>vc_id = ''post-no-old-deps'', vc_type = Post,
       description = ''Check old dependencies are removed'', validator = Inr empty_result\<rparr>]"

text \<open>One inverse action per operation; the generated action only logs and completes.\<close>

definition generateRollbackPlan :: "ReplacementOperation list \<Rightarrow> RollbackOperation list" where
  "generateRollbackPlan operations = map (\<lambda>op. \<lparr>operationId = op_id op, action = Inr ()\<rparr>) operations"

definition estimateTime :: "ReplacementOperation list \<Rightarrow> nat" where
  "estimateTime operations = (let base = 30; perOperation = 15 in base + length operations * perOperation)"

text \<open>
  \<open>createReplacementPlan\<close>: the rollback plan goes into the plan; the engine's own field
  \<open>rollbackPlan\<close> is not assigned.
\<close>

definition createReplacementPlan ::
  "MigrationStrategy \<Rightarrow> MigrationEngine \<Rightarrow> string + (MigrationPlan \<times> MigrationEngine)" where
  "createReplacementPlan strat eng =
     (case this_state eng of
        None \<Rightarrow> Inl ''Must scan project state first''
      | Some st \<Rightarrow>
          let reps = generateReplacements strat;
              plan = \<lparr>strategy = strat, replacements = reps,
                      validations = generateValidations strat,
                      rollbackPlan = generateRollbackPlan reps,
                      estimatedTime = estimateTime reps\<rparr>
          in Inr (plan, eng\<lparr>this_plan := Some plan\<rparr>))"

subsection \<open>Execution\<close>

text \<open>
  The loop of \<open>runValidations\<close>: a validator that throws ends the loop with its error; an
  invalid result clears \<open>valid\<close> and appends its issues; the warnings of every result are
  appended.
\<close>

fun validation_loop :: "ValidationCheck list \<Rightarrow> ValidationResult \<Rightarrow> string + ValidationResult" where
  "validation_loop [] result = Inr result"
| "validation_loop (validation # rest) result =
     (case validator validation of
        Inl e \<Rightarrow> Inl e
      | Inr validationResult \<Rightarrow>
          validation_loop rest
            ((absorb result validationResult)
               \<lparr>warnings := warnings (absorb result validationResult) @ warnings validationResult\<rparr>))"

definition runValidations :: "MigrationEngine \<Rightarrow> validation_type \<Rightarrow> string + ValidationResult" where
  "runValidations eng ty =
     (case this_plan eng of
        None \<Rightarrow> Inl ''No plan available for validation''
      | Some plan \<Rightarrow> validation_loop (filter (\<lambda>v. vc_type v = ty) (validations plan)) empty_result)"

text \<open>
  The loop over \<open>plan.replacements\<close>. The five executors behind \<open>executeOperation\<close> are
  placeholders in the source; whether the call for an operation throws is the parameter
  \<open>throws\<close>. The loop returns the error that leaves it, if any, and the result as mutated
  up to there.
\<close>

fun operations_loop ::
  "(ReplacementOperation \<Rightarrow> bool) \<Rightarrow> ReplacementOperation list \<Rightarrow> run \<Rightarrow> string option \<times> run" where
  "operations_loop throws [] r = (None, r)"
| "operations_loop throws (operation # rest) r =
     (let r = r\<lparr>trace := trace r @ [Apply (op_id operation)]\<rparr>
      in if \<not> throws operation
         then operations_loop throws rest
                (r\<lparr>res := (res r)\<lparr>completedOperations :=
                                      completedOperations (res r) @ [op_id operation]\<rparr>\<rparr>)
         else let r = r\<lparr>res := (res r)\<lparr>failedOperations :=
                                            failedOperations (res r) @ [op_id operation]\<rparr>\<rparr>
              in if critical operation
                 then (Some (''Critical operation failed: '' @ op_id operation), r)
                 else operations_loop throws rest r)"

text \<open>The body of the \<open>try\<close> block of \<open>executeAtomicMigration\<close>.\<close>

definition try_block ::
  "(ReplacementOperation \<Rightarrow> bool) \<Rightarrow> MigrationEngine \<Rightarrow> MigrationPlan \<Rightarrow> run \<Rightarrow> string option \<times> run" where
  "try_block throws eng plan r =
     (case runValidations eng Pre of
        Inl e \<Rightarrow> (Some e, r)
      | Inr preValidation \<Rightarrow>
          let r = r\<lparr>res := (res r)\<lparr>validationResults := validationResults (res r) @ [preValidation]\<rparr>\<rparr>
          in if \<not> valid preValidation
             then (Some ''Pre-flight validation failed'',
                   r\<lparr>res := (res r)\<lparr>result_issues := result_issues (res r) @ issues preValidation\<rparr>\<rparr>)
             else
               (case operations_loop throws (replacements plan) r of
                  (Some e, r) \<Rightarrow> (Some e, r)
                | (None, r) \<Rightarrow>
                    (case runValidations eng Post of
                       Inl e \<Rightarrow> (Some e, r)
                     | Inr postValidation \<Rightarrow>
                         let r = r\<lparr>res := (res r)\<lparr>validationResults :=
                                     validationResults (res r) @ [postValidation]\<rparr>\<rparr>
                         in if \<not> valid postValidation
                            then (Some ''Post-migration validation failed'',
                                  r\<lparr>res := (res r)\<lparr>result_issues :=
                                     result_issues (res r) @ issues postValidation\<rparr>\<rparr>)
                            else (None, r\<lparr>res := (res r)\<lparr>success := True\<rparr>\<rparr>))))"

text \<open>
  The loop of \<open>executeRollback\<close>: the actions are awaited one after the other, and an
  action that throws ends the loop with its error.
\<close>

fun rollback_loop :: "RollbackOperation list \<Rightarrow> event list \<Rightarrow> string option \<times> event list" where
  "rollback_loop [] tr = (None, tr)"
| "rollback_loop (rollbackOp # rest) tr =
     (case action rollbackOp of
        Inl e \<Rightarrow> (Some e, tr @ [Undo (operationId rollbackOp)])
      | Inr u \<Rightarrow> rollback_loop rest (tr @ [Undo (operationId rollbackOp)]))"

text \<open>
  \<open>executeRollback\<close> runs over \<open>this.rollbackPlan.reverse()\<close>, which reverses the
  engine's field in place.
\<close>

definition executeRollback ::
  "MigrationEngine \<Rightarrow> event list \<Rightarrow> (string option \<times> event list) \<times> MigrationEngine" where
  "executeRollback eng tr =
     (let reversed = rev (this_rollbackPlan eng)
      in (rollback_loop reversed tr, eng\<lparr>this_rollbackPlan := reversed\<rparr>))"

definition rollback_failed :: "string \<Rightarrow> ValidationIssue" where
  "rollback_failed rollbackError =
     \<lparr>severity = Critical, code = ''ROLLBACK_FAILED'',
      message = ''Rollback failed: '' @ rollbackError,
      issue_file = None, issue_line = None, issue_fix = Some ''Manual intervention required''\<rparr>"

definition initial_result :: MigrationResult where
  "initial_result =
     \<lparr>success = False, completedOperations = [], failedOperations = [], validationResults = [],
      rollbackExecuted = False, duration = 0, result_issues = []\<rparr>"

text \<open>
  \<open>executeAtomicMigration\<close>. \<open>startTime\<close> and \<open>endTime\<close> are the two readings of
  \<^verbatim>\<open>Date.now()\<close>. Without a plan the call throws (\<open>Inl\<close>); otherwise it returns the
  result, together with the events of the run and the engine as the run leaves it.
\<close>

definition executeAtomicMigration ::
  "(ReplacementOperation \<Rightarrow> bool) \<Rightarrow> int \<Rightarrow> int \<Rightarrow> MigrationEngine \<Rightarrow> string + outcome" where
  "executeAtomicMigration throws startTime endTime eng =
     (case this_plan eng of
        None \<Rightarrow> Inl ''Must create replacement plan first''
      | Some plan \<Rightarrow>
          (case try_block throws eng plan \<lparr>res = initial_result, trace = []\<rparr> of
             (None, r) \<Rightarrow>
               Inr \<lparr>final_result = (res r)\<lparr>duration := endTime - startTime\<rparr>,
                    events = trace r, engine = eng\<rparr>
           | (Some error, r) \<Rightarrow>
               (case executeRollback eng (trace r) of
                  ((None, tr), eng') \<Rightarrow>
                    Inr \<lparr>final_result = (res r)\<lparr>rollbackExecuted := True, duration := endTime - startTime\<rparr>,
                         events = tr, engine = eng'\<rparr>
                | ((Some rollbackError, tr), eng') \<Rightarrow>
                    Inr \<lparr>final_result = (res r)\<lparr>result_issues := result_issues (res r)
                                                @ [rollback_failed rollbackError],
                                            duration := endTime - startTime\<rparr>,
                         events = tr, engine = eng'\<rparr>)))"

section \<open>Predicates of the specification and concrete project states\<close>

text \<open>
  A fingerprint is a substring of a dependency name or of an import source that marks a
  source provider: \<open>privy\<close>, \<open>reown\<close> or \<open>web3modal\<close>.
\<close>

definition fingerprint :: "string \<Rightarrow> bool" where
  "fingerprint s = (str_includes s ''privy'' \<or> str_includes s ''reown''
                    \<or> str_includes s ''web3modal'')"

definition no_fingerprint :: "ProjectState \<Rightarrow> bool" where
  "no_fingerprint st = (\<not> list_ex fingerprint (dependency_keys st)
                        \<and> \<not> list_ex fingerprint (map imp_from (st_imports st)))"

text \<open>A validation result reports an issue of the given severity and code.\<close>

definition reports :: "ValidationResult \<Rightarrow> severity \<Rightarrow> string \<Rightarrow> bool" where
  "reports r sev c = list_ex (\<lambda>i. severity i = sev \<and> code i = c) (issues r)"

text \<open>The three tests of \<open>detectStrategy\<close>, one per provider, and their fixed order.\<close>

definition privy_detected :: "ProjectState \<Rightarrow> bool" where
  "privy_detected st = (''@privy-io/react-auth'' \<in> set (dependency_keys st)
                        \<or> list_ex (\<lambda>i. str_includes (imp_from i) ''privy'') (st_imports st))"

definition reown_detected :: "ProjectState \<Rightarrow> bool" where
  "reown_detected st = (list_ex (\<lambda>d. str_includes d ''reown'') (dependency_keys st)
                        \<or> list_ex (\<lambda>i. str_includes (imp_from i) ''reown'') (st_imports st))"

definition web3modal_detected :: "ProjectState \<Rightarrow> bool" where
  "web3modal_detected st = (list_ex (\<lambda>d. str_includes d ''web3modal'') (dependency_keys st)
                        \<or> list_ex (\<lambda>i. str_includes (imp_from i) ''web3modal'') (st_imports st))"

definition priority :: "(MigrationStrategy \<times> (ProjectState \<Rightarrow> bool)) list" where
  "priority = [(PRIVY_TO_PARA, privy_detected), (REOWN_TO_PARA, reown_detected),
               (WEB3MODAL_TO_PARA, web3modal_detected)]"

text \<open>The specification's selector: the first provider of the priority list whose test holds.\<close>

definition first_match :: "ProjectState \<Rightarrow> MigrationStrategy option" where
  "first_match st = map_option fst (find (\<lambda>(s, test). test st) priority)"

text \<open>The points a criterion of the success score contributes.\<close>

definition bonus :: "bool \<Rightarrow> int \<Rightarrow> int" where
  "bonus b n = (if b then n else 0)"

text \<open>
  A project whose only wallet dependency is WalletConnect: some dependency name contains
  \<open>walletconnect\<close>, and no dependency name or import source contains \<open>privy\<close>, \<open>reown\<close>
  or \<open>web3modal\<close>.
\<close>

definition walletconnect_only :: "ProjectState \<Rightarrow> bool" where
  "walletconnect_only st =
     (list_ex (\<lambda>d. str_includes d ''walletconnect'') (dependency_keys st)
      \<and> \<not> list_ex (\<lambda>s. str_includes s ''privy'' \<or> str_includes s ''reown'' \<or> str_includes s ''web3modal'')
             (dependency_keys st @ map imp_from (st_imports st)))"

text \<open>A dependency name contains \<open>walletconnect\<close>.\<close>

definition has_walletconnect_dependency :: "ProjectState \<Rightarrow> bool" where
  "has_walletconnect_dependency st =
     list_ex (\<lambda>d. str_includes d ''walletconnect'') (dependency_keys st)"

text \<open>The project state of the repository's own test script (test-atomic-architecture.js).\<close>

definition mockProjectState :: ProjectState where
  "mockProjectState =
     \<lparr>dependencies = [(''@privy-io/react-auth'', ''^2.21.3''), (''@para-wallet/react'', ''^1.0.0'')],
      st_imports = [\<lparr>imp_file = ''src/components/auth.tsx'', imp_line = JSafe False 5, imp_import = ''usePrivy'',
                     imp_from = ''@privy-io/react-auth'', imp_type = T_privy\<rparr>],
      providers = [\<lparr>pu_file = ''src/providers/app-provider.tsx'', pu_line = JSafe False 10,
                    pu_provider = ''PrivyProvider'', pu_props = [(''appId'', JStr ''test-app-id'')],
                    pu_active = True\<rparr>],
      hooks = [], styles = [], entryPoints = [''src/main.tsx'']\<rparr>"

definition walletconnectOnly :: ProjectState where
  "walletconnectOnly =
     \<lparr>dependencies = [(''@walletconnect/web3-provider'', ''1.8.0''), (''react'', ''18.2.0'')],
      st_imports = [], providers = [], hooks = [], styles = [], entryPoints = [''src/main.tsx'']\<rparr>"

definition walletconnectNoEntry :: ProjectState where
  "walletconnectNoEntry =
     \<lparr>dependencies = [(''@walletconnect/web3-provider'', ''1.8.0''), (''react'', ''18.2.0'')],
      st_imports = [], providers = [], hooks = [], styles = [], entryPoints = []\<rparr>"

definition plainProject :: ProjectState where
  "plainProject =
     \<lparr>dependencies = [(''react'', ''18.2.0''), (''wagmi'', ''2.0.0'')],
      st_imports = [\<lparr>imp_file = ''src/App.tsx'', imp_line = JSafe False 1, imp_import = ''useAccount'',
                     imp_from = ''wagmi'', imp_type = T_wagmi\<rparr>],
      providers = [], hooks = [], styles = [], entryPoints = [''src/main.tsx'']\<rparr>"

definition privyWagmiAndReown :: ProjectState where
  "privyWagmiAndReown =
     \<lparr>dependencies = [(''@privy-io/wagmi'', ''1.0.0''), (''@reown/appkit'', ''1.0.0'')],
      st_imports = [], providers = [], hooks = [], styles = [], entryPoints = [''src/main.tsx'']\<rparr>"

text \<open>The provider rewrite that the Privy strategy emits for the test script's project state.\<close>

definition mockProviderOp :: ReplacementOperation where
  "mockProviderOp =
     \<lparr>op_id = ''replace-provider-src/providers/app-provider.tsx-10'', op_type = Provider,
      op_file = Some ''src/providers/app-provider.tsx'', op_line = Some (JSafe False 10),
      oldValue = join_lines
        [''<PrivyProvider'', ''  appId={test-app-id}'', ''  clientId={PRIVY_CLIENT_ID}'',
         ''  config={{...}}'', ''>'', ''  {children}'', ''</PrivyProvider>''],
      newValue = join_lines
        [''<ParaProvider'', ''  config={{'', ''    apiKey: test-app-id,'',
         ''    paraClientConfig: {'', ''      env: Environment.DEVELOPMENT,'', ''    },'',
         ''    embeddedWalletConfig: {'',
         ''      createOnLogin: '' @ [CHR 0x22] @ ''all-users'' @ [CHR 0x22] @ '','',
         ''      showWalletUiOnLogin: true,'', ''    }'', ''  }}'', ''>'', ''  {children}'',
         ''  {/* '' @ warning_sign @ '' CRITICAL: ParaModal is REQUIRED - #1 missing piece in failed migrations */}'',
         ''  <ParaModal />'', ''</ParaProvider>''],
      critical = True\<rparr>"

text \<open>The operations applied and the inverse actions invoked in a run, in order.\<close>

fun applied :: "event list \<Rightarrow> string list" where
  "applied [] = []"
| "applied (Apply i # es) = i # applied es"
| "applied (Undo i # es) = applied es"

fun undone :: "event list \<Rightarrow> string list" where
  "undone [] = []"
| "undone (Apply i # es) = undone es"
| "undone (Undo i # es) = i # undone es"

text \<open>Every action of a list of rollback operations completes.\<close>

definition all_complete :: "RollbackOperation list \<Rightarrow> bool" where
  "all_complete rs = list_all (\<lambda>x. action x = Inr ()) rs"

text \<open>No operation of the list fails critically.\<close>

definition no_critical_failure :: "(ReplacementOperation \<Rightarrow> bool) \<Rightarrow> ReplacementOperation list \<Rightarrow> bool" where
  "no_critical_failure throws ops = list_all (\<lambda>p. \<not> (throws p \<and> critical p)) ops"

text \<open>
  The run after the loop has gone through \<open>ops\<close>: the ids of the operations that did
  not throw are appended to \<open>completedOperations\<close>, the ids of those that threw to
  \<open>failedOperations\<close>, and every one of them was applied.
\<close>

definition after_ops :: "(ReplacementOperation \<Rightarrow> bool) \<Rightarrow> ReplacementOperation list \<Rightarrow> run \<Rightarrow> run" where
  "after_ops throws ops r =
     r\<lparr>trace := trace r @ map (\<lambda>p. Apply (op_id p)) ops,
       res := (res r)\<lparr>completedOperations :=
                        completedOperations (res r) @ map op_id (filter (\<lambda>p. \<not> throws p) ops),
                      failedOperations :=
                        failedOperations (res r) @ map op_id (filter throws ops)\<rparr>\<rparr>"

text \<open>Sample operations, as the Privy strategy emits them, and a sample plan.\<close>

definition sampleOperations :: "ReplacementOperation list" where
  "sampleOperations =
     [remove_dependency ''remove-privy-deps'' ''@privy-io/react-auth'',
      add_para_react,
      replace_hook \<lparr>hu_file = ''src/App.tsx'', hu_line = JSafe False 7, hu_hook = ''usePrivy'',
                    hu_from = ''@privy-io/react-auth'', hu_usage = ''const { user } = usePrivy()''\<rparr>
                   ''const { user } = useAccount()'',
      add_para_css ''src/main.tsx'']"

definition samplePlan :: MigrationPlan where
  "samplePlan =
     \<lparr>strategy = PRIVY_TO_PARA, replacements = sampleOperations,
      validations = generateValidations PRIVY_TO_PARA,
      rollbackPlan = generateRollbackPlan sampleOperations,
      estimatedTime = estimateTime sampleOperations\<rparr>"

text \<open>An engine holding the sample plan, its own rollback field as a new engine has it.\<close>

definition sampleEngine :: MigrationEngine where
  "sampleEngine = \<lparr>this_state = Some mockProjectState, this_plan = Some samplePlan,
                    this_rollbackPlan = []\<rparr>"

text \<open>
  The same engine with one inverse action per operation in its rollback field; the
  inverse action of \<open>add-para-react\<close> throws.
\<close>

definition engineWithRollback :: MigrationEngine where
  "engineWithRollback =
     sampleEngine\<lparr>this_rollbackPlan :=
       [\<lparr>operationId = ''remove-privy-deps'', action = Inr ()\<rparr>,
        \<lparr>operationId = ''add-para-react'', action = Inl ''Error: EACCES''\<rparr>,
        \<lparr>operationId = ''replace-hook-src/App.tsx-7'', action = Inr ()\<rparr>,
        \<lparr>operationId = ''add-para-css-src/main.tsx'', action = Inr ()\<rparr>]\<rparr>"

text \<open>An engine whose plan has a pre-flight check that reports the pre-flight result of a project without wallet provider.\<close>

definition engineInvalidPre :: MigrationEngine where
  "engineInvalidPre =
     sampleEngine\<lparr>this_plan := Some (samplePlan\<lparr>validations :=
       [\<lparr>vc_id = ''pre-flight'', vc_type = Pre, description = ''Pre-flight validation'',
         validator = Inr (validatePreFlight plainProject)\<rparr>]\<rparr>)\<rparr>"

text \<open>
  The plan that \<open>createReplacementPlan\<close> builds for \<open>walletconnect-to-para\<close>, and the
  engine that holds it after a scan.
\<close>

definition walletconnectPlan :: MigrationPlan where
  "walletconnectPlan =
     \<lparr>strategy = WALLETCONNECT_TO_PARA, replacements = [],
      validations = generateValidations WALLETCONNECT_TO_PARA,
      rollbackPlan = [], estimatedTime = 30\<rparr>"

definition walletconnectEngine :: MigrationEngine where
  "walletconnectEngine =
     \<lparr>this_state = Some \<lparr>dependencies = [], st_imports = [], providers = [], hooks = [],
                          styles = [], entryPoints = []\<rparr>,
      this_plan = Some walletconnectPlan, this_rollbackPlan = []\<rparr>"

text \<open>The operations with the given ids throw.\<close>

definition throws_ids :: "string list \<Rightarrow> ReplacementOperation \<Rightarrow> bool" where
  "throws_ids ids p = (op_id p \<in> set ids)"

section \<open>Properties of the strategy selector and of the validator\<close>

lemma privy_auth_has_fingerprint: "fingerprint ''@privy-io/react-auth''"
  by (simp add: fingerprint_def)

lemma detectStrategy_None_if:
  assumes "no_fingerprint st"
  shows "detectStrategy st = None"
proof -
  have d: "\<forall>x \<in> set (dependency_keys st). \<not> fingerprint x"
    using assms by (simp add: no_fingerprint_def list_ex_iff)
  have i: "\<forall>x \<in> set (map imp_from (st_imports st)). \<not> fingerprint x"
    using assms by (simp add: no_fingerprint_def list_ex_iff)
  have 1: "''@privy-io/react-auth'' \<notin> set (dependency_keys st)"
    using d privy_auth_has_fingerprint by blast
  have 2: "\<not> list_ex (\<lambda>d. str_includes d p) (dependency_keys st)" if "p \<in> {''reown'', ''web3modal''}" for p
    using d that by (auto simp: list_ex_iff fingerprint_def)
  have 3: "\<not> list_ex (\<lambda>d. str_includes d p) (map imp_from (st_imports st))"
    if "p \<in> {''privy'', ''reown'', ''web3modal''}" for p
    using i that by (auto simp: list_ex_iff fingerprint_def)
  show ?thesis
    using 1 2 3 by (simp add: detectStrategy_def Let_def)
qed

lemma valid_checkMigratableContent:
  "valid (checkMigratableContent st)
     = list_ex (\<lambda>dep. fingerprint dep \<or> str_includes dep ''walletconnect'') (dependency_keys st)"
proof -
  have "(\<lambda>dep. str_includes dep ''privy'' \<or> str_includes dep ''reown''
                \<or> str_includes dep ''web3modal'' \<or> str_includes dep ''walletconnect'')
        = (\<lambda>dep. fingerprint dep \<or> str_includes dep ''walletconnect'')"
    by (auto simp: fingerprint_def)
  then show ?thesis
    by (auto simp: checkMigratableContent_def empty_result_def Let_def list_ex_iff filter_empty_conv)
qed

lemma issues_absorb: "issues (absorb r c) = (if valid c then issues r else issues r @ issues c)"
  by (simp add: absorb_def)

lemma valid_absorb: "valid (absorb r c) = (valid r \<and> valid c)"
  by (simp add: absorb_def)

lemma warnings_absorb: "warnings (absorb r c) = warnings r"
  by (simp add: absorb_def)

lemma valid_validatePreFlight:
  "valid (validatePreFlight st) =
     (valid (checkMigratableContent st) \<and> valid (checkProjectStructure st) \<and> valid (checkForConflicts st))"
  by (simp add: validatePreFlight_def Let_def valid_absorb empty_result_def)

lemma issues_validatePreFlight:
  "issues (validatePreFlight st) =
     (if valid (checkMigratableContent st) then [] else issues (checkMigratableContent st))
   @ (if valid (checkProjectStructure st) then [] else issues (checkProjectStructure st))
   @ (if valid (checkForConflicts st) then [] else issues (checkForConflicts st))"
  by (simp add: validatePreFlight_def Let_def issues_absorb empty_result_def)

lemma warnings_validatePreFlight: "warnings (validatePreFlight st) = []"
  by (simp add: validatePreFlight_def Let_def warnings_absorb empty_result_def)

lemma reports_no_migratable_content:
  "reports (validatePreFlight st) Critical ''NO_MIGRATABLE_CONTENT''
     = (\<not> valid (checkMigratableContent st))"
  by (auto simp: reports_def issues_validatePreFlight checkMigratableContent_def
      checkProjectStructure_def checkForConflicts_def empty_result_def Let_def)

text \<open>
  Claim C6 (amended). For every project state with no source-provider fingerprint in its
  dependency names or import sources, \<open>detectStrategy\<close> returns none. Pre-flight
  validation on that state is invalid and reports a critical issue with code
  \<open>NO_MIGRATABLE_CONTENT\<close> when no dependency name contains \<open>walletconnect\<close>, and
  reports no such issue when one does.
\<close>

theorem no_fingerprint_detect_none_and_preflight:
  assumes "no_fingerprint st"
  shows "detectStrategy st = None
         \<and> (reports (validatePreFlight st) Critical ''NO_MIGRATABLE_CONTENT''
              \<longleftrightarrow> \<not> has_walletconnect_dependency st)
         \<and> (\<not> has_walletconnect_dependency st \<longrightarrow> \<not> valid (validatePreFlight st))"
proof -
  have nd: "\<forall>x \<in> set (dependency_keys st). \<not> fingerprint x"
    using assms by (simp add: no_fingerprint_def list_ex_iff)
  have v: "valid (checkMigratableContent st) = has_walletconnect_dependency st"
    unfolding valid_checkMigratableContent has_walletconnect_dependency_def
    using nd by (auto simp: list_ex_iff)
  have "detectStrategy st = None" using assms by (rule detectStrategy_None_if)
  moreover have "reports (validatePreFlight st) Critical ''NO_MIGRATABLE_CONTENT''
                   \<longleftrightarrow> \<not> has_walletconnect_dependency st"
    by (simp add: reports_no_migratable_content v)
  moreover have "\<not> has_walletconnect_dependency st \<longrightarrow> \<not> valid (validatePreFlight st)"
    by (simp add: valid_validatePreFlight v)
  ultimately show ?thesis by blast
qed

lemma plain_nofp: "no_fingerprint plainProject"
  by (simp add: no_fingerprint_def plainProject_def dependency_keys_def fingerprint_def)

text \<open>
  The theorem above at a project that depends on React and wagmi only: it has no
  fingerprint and no WalletConnect dependency.
\<close>

theorem no_fingerprint_witness:
  "no_fingerprint plainProject \<and> \<not> has_walletconnect_dependency plainProject
   \<and> detectStrategy plainProject = None
   \<and> \<not> valid (validatePreFlight plainProject)
   \<and> reports (validatePreFlight plainProject) Critical ''NO_MIGRATABLE_CONTENT''"
proof -
  have w: "\<not> has_walletconnect_dependency plainProject"
    by (simp add: has_walletconnect_dependency_def plainProject_def dependency_keys_def)
  show ?thesis
    using no_fingerprint_detect_none_and_preflight[OF plain_nofp] plain_nofp w by blast
qed

text \<open>
  The original wording fails at a project whose only wallet dependency is WalletConnect:
  it has none of the three fingerprints and no strategy is detected, yet pre-flight
  validation is valid and reports nothing.
\<close>

theorem no_fingerprint_walletconnect_counterexample:
  "no_fingerprint walletconnectOnly
   \<and> detectStrategy walletconnectOnly = None
   \<and> validatePreFlight walletconnectOnly = \<lparr>valid = True, issues = [], warnings = []\<rparr>
   \<and> \<not> reports (validatePreFlight walletconnectOnly) Critical ''NO_MIGRATABLE_CONTENT''"
  by (simp add: no_fingerprint_def fingerprint_def walletconnectOnly_def dependency_keys_def
      detectStrategy_def validatePreFlight_def checkMigratableContent_def
      checkProjectStructure_def checkForConflicts_def absorb_def empty_result_def reports_def)


lemma list_ex_map: "list_ex P (map f xs) = list_ex (\<lambda>x. P (f x)) xs"
  by (induction xs) auto

text \<open>
  Claim C7 (amended). \<open>detectStrategy\<close> returns the first provider, in the fixed order
  Privy, ReOwn, Web3Modal, whose test holds, where the Privy test is the exact dependency
  name \<open>@privy-io/react-auth\<close> or an import source containing \<open>privy\<close>, the ReOwn test
  is \<open>reown\<close> in a dependency name or import source, and the Web3Modal test is
  \<open>web3modal\<close> in a dependency name or import source.
\<close>

theorem detectStrategy_first_match: "detectStrategy st = first_match st"
  by (simp add: detectStrategy_def first_match_def priority_def Let_def list_ex_map
      privy_detected_def reown_detected_def web3modal_detected_def)

text \<open>
  Claim C7 as stated fails: a project whose dependency names contain both a Privy and a
  ReOwn fingerprint, the Privy one not being \<open>@privy-io/react-auth\<close>, resolves to ReOwn.
\<close>

theorem detectStrategy_privy_substring_counterexample:
  "list_ex (\<lambda>d. str_includes d ''privy'') (dependency_keys privyWagmiAndReown)
   \<and> list_ex (\<lambda>d. str_includes d ''reown'') (dependency_keys privyWagmiAndReown)
   \<and> detectStrategy privyWagmiAndReown = Some REOWN_TO_PARA"
  by (simp add: privyWagmiAndReown_def dependency_keys_def detectStrategy_def)

text \<open>
  Claim C8, at the project state of the repository's test script, whose dependencies hold
  the Para SDK: the conflict check emits the warning, and the pre-flight result holds no
  warning at all.
\<close>

theorem validatePreFlight_drops_conflict_warning:
  "warnings (checkForConflicts mockProjectState) =
     [''Para SDK already present - migration may overwrite existing configuration'']
   \<and> validatePreFlight mockProjectState = \<lparr>valid = True, issues = [], warnings = []\<rparr>"
  by (simp add: mockProjectState_def validatePreFlight_def checkForConflicts_def
      checkMigratableContent_def checkProjectStructure_def absorb_def empty_result_def
      dependency_keys_def)

lemma Math_round_percent: "Math_round ((of_int n / of_int 100) * 100) = n"
proof -
  have "(of_int n / of_int 100) * 100 = (of_int n :: rat)" by simp
  moreover have "\<lfloor>(of_int n :: rat) + 1 / 2\<rfloor> = n" by linarith
  ultimately show ?thesis by (simp add: Math_round_def)
qed

lemma add_if_bonus: "(if b then s + n else s) = s + bonus b n"
  by (simp add: bonus_def)

lemma bonus_bounds: "0 \<le> n \<Longrightarrow> 0 \<le> bonus b n \<and> bonus b n \<le> n"
  by (simp add: bonus_def)

text \<open>
  Claim C9. \<open>calculateMigrationSuccess\<close> is the sum of the eight weighted criteria and
  lies between 0 and 100.
\<close>

theorem calculateMigrationSuccess_weighted_sum:
  "calculateMigrationSuccess st =
      bonus (list_ex (\<lambda>dep. str_includes dep ''para'') (dependency_keys st)) 15
    + bonus (\<not> list_ex (\<lambda>dep. str_includes dep ''privy'' \<or> str_includes dep ''reown''
                               \<or> str_includes dep ''web3modal'') (dependency_keys st)) 15
    + bonus (list_ex (\<lambda>imp. str_includes (imp_from imp) ''para'') (st_imports st)) 15
    + bonus (\<not> list_ex (\<lambda>imp. imp_type imp = T_privy \<or> imp_type imp = T_reown
                               \<or> imp_type imp = T_web3modal) (st_imports st)) 10
    + bonus (list_ex (\<lambda>p. pu_provider p = ''ParaProvider'') (providers st)) 15
    + bonus (list_ex (\<lambda>imp. str_includes (imp_import imp) ''ParaModal'') (st_imports st)) 10
    + bonus (list_ex isParaStyle (styles st)) 10
    + bonus (list_ex (\<lambda>hook. str_includes (hu_from hook) ''para'') (hooks st)) 10
   \<and> 0 \<le> calculateMigrationSuccess st \<and> calculateMigrationSuccess st \<le> 100"
proof -
  have eq: "calculateMigrationSuccess st =
      bonus (list_ex (\<lambda>dep. str_includes dep ''para'') (dependency_keys st)) 15
    + bonus (\<not> list_ex (\<lambda>dep. str_includes dep ''privy'' \<or> str_includes dep ''reown''
                               \<or> str_includes dep ''web3modal'') (dependency_keys st)) 15
    + bonus (list_ex (\<lambda>imp. str_includes (imp_from imp) ''para'') (st_imports st)) 15
    + bonus (\<not> list_ex (\<lambda>imp. imp_type imp = T_privy \<or> imp_type imp = T_reown
                               \<or> imp_type imp = T_web3modal) (st_imports st)) 10
    + bonus (list_ex (\<lambda>p. pu_provider p = ''ParaProvider'') (providers st)) 15
    + bonus (list_ex (\<lambda>imp. str_includes (imp_import imp) ''ParaModal'') (st_imports st)) 10
    + bonus (list_ex isParaStyle (styles st)) 10
    + bonus (list_ex (\<lambda>hook. str_includes (hu_from hook) ''para'') (hooks st)) 10"
    unfolding calculateMigrationSuccess_def Let_def add_if_bonus Math_round_percent by simp
  show ?thesis
    unfolding eq
    using bonus_bounds[of 15 "list_ex (\<lambda>dep. str_includes dep ''para'') (dependency_keys st)"]
      bonus_bounds[of 15 "\<not> list_ex (\<lambda>dep. str_includes dep ''privy'' \<or> str_includes dep ''reown''
                               \<or> str_includes dep ''web3modal'') (dependency_keys st)"]
      bonus_bounds[of 15 "list_ex (\<lambda>imp. str_includes (imp_from imp) ''para'') (st_imports st)"]
      bonus_bounds[of 10 "\<not> list_ex (\<lambda>imp. imp_type imp = T_privy \<or> imp_type imp = T_reown
                               \<or> imp_type imp = T_web3modal) (st_imports st)"]
      bonus_bounds[of 15 "list_ex (\<lambda>p. pu_provider p = ''ParaProvider'') (providers st)"]
      bonus_bounds[of 10 "list_ex (\<lambda>imp. str_includes (imp_import imp) ''ParaModal'') (st_imports st)"]
      bonus_bounds[of 10 "list_ex isParaStyle (styles st)"]
      bonus_bounds[of 10 "list_ex (\<lambda>hook. str_includes (hu_from hook) ''para'') (hooks st)"]
    by linarith
qed

section \<open>Properties of the replacement strategies\<close>

lemma startsWith_iff: "startsWith s pat \<longleftrightarrow> (\<exists>b. s = pat @ b)"
  by (induction s pat rule: startsWith.induct) auto

lemma str_includes_iff: "str_includes s pat \<longleftrightarrow> (\<exists>a b. s = a @ pat @ b)"
proof (induction s)
  case Nil
  then show ?case by auto
next
  case (Cons c cs)
  show ?case
  proof
    assume "str_includes (c # cs) pat"
    then consider "startsWith (c # cs) pat" | "str_includes cs pat" by auto
    then show "\<exists>a b. c # cs = a @ pat @ b"
    proof cases
      case 1
      then obtain b where "c # cs = pat @ b" by (auto simp: startsWith_iff)
      then have "c # cs = [] @ pat @ b" by simp
      then show ?thesis by blast
    next
      case 2
      then obtain a b where "cs = a @ pat @ b" using Cons.IH by auto
      then have "c # cs = (c # a) @ pat @ b" by simp
      then show ?thesis by blast
    qed
  next
    assume "\<exists>a b. c # cs = a @ pat @ b"
    then obtain a b where ab: "c # cs = a @ pat @ b" by blast
    show "str_includes (c # cs) pat"
    proof (cases a)
      case Nil
      then have "startsWith (c # cs) pat" using ab by (auto simp: startsWith_iff)
      then show ?thesis by simp
    next
      case (Cons x a')
      then have "cs = a' @ pat @ b" using ab by simp
      then have "str_includes cs pat" using Cons.IH by blast
      then show ?thesis by simp
    qed
  qed
qed

lemma str_includes_append_left: "str_includes xs pat \<Longrightarrow> str_includes (xs @ ys) pat"
proof -
  assume "str_includes xs pat"
  then obtain a b where "xs = a @ pat @ b" by (auto simp: str_includes_iff)
  then have "xs @ ys = a @ pat @ (b @ ys)" by simp
  then show ?thesis unfolding str_includes_iff by blast
qed

lemma str_includes_append_right: "str_includes ys pat \<Longrightarrow> str_includes (xs @ ys) pat"
proof -
  assume "str_includes ys pat"
  then obtain a b where "ys = a @ pat @ b" by (auto simp: str_includes_iff)
  then have "xs @ ys = (xs @ a) @ pat @ b" by simp
  then show ?thesis unfolding str_includes_iff by blast
qed

lemma str_includes_join_lines:
  "l \<in> set ls \<Longrightarrow> str_includes l pat \<Longrightarrow> str_includes (join_lines ls) pat"
proof (induction ls rule: join_lines.induct)
  case 1
  then show ?case by simp
next
  case (2 l')
  then show ?case by simp
next
  case (3 l' v va)
  show ?case
  proof (cases "l = l'")
    case True
    then show ?thesis using "3.prems" by (simp add: str_includes_append_left)
  next
    case False
    then have "str_includes (join_lines (v # va)) pat" using 3 by simp
    then have "str_includes ([CHR 0x0A] @ join_lines (v # va)) pat"
      by (rule str_includes_append_right)
    then have "str_includes (l' @ [CHR 0x0A] @ join_lines (v # va)) pat"
      by (rule str_includes_append_right)
    then show ?thesis by simp
  qed
qed

lemma privy_generateParaProvider_ParaModal:
  "str_includes (privy_generateParaProvider props) ''ParaModal''"
  unfolding privy_generateParaProvider_def
  by (rule str_includes_join_lines[where l = "''  <ParaModal />''"]) simp_all

lemma reown_generateParaProvider_ParaModal:
  "str_includes (reown_generateParaProvider props) ''ParaModal''"
  unfolding reown_generateParaProvider_def
  by (rule str_includes_join_lines[where l = "''  <ParaModal />''"]) simp_all

lemma privy_hook_operations_type:
  "privy_hook_operations hs = Inr ops \<Longrightarrow> op \<in> set ops \<Longrightarrow> op_type op = Hook"
proof (induction hs arbitrary: ops)
  case Nil
  then show ?case by simp
next
  case (Cons h hs)
  then show ?case
    by (auto simp: replace_hook_def split: option.splits sum.splits)
qed

lemma privy_execute_provider_ops:
  assumes "privy_execute st = Inr ops" and "op \<in> set ops" and "op_type op = Provider"
  shows "\<exists>p \<in> set (providers st). pu_provider p = ''PrivyProvider''
           \<and> op = replace_provider p (generatePrivyProvider (pu_props p))
                                      (privy_generateParaProvider (pu_props p))"
proof -
  obtain hookOperations where
    h: "privy_hook_operations (filter (\<lambda>h. str_includes (hu_from h) ''privy'') (hooks st))
          = Inr hookOperations"
    and o: "ops = [remove_dependency ''remove-privy-deps'' ''@privy-io/react-auth'',
                remove_dependency ''remove-privy-wagmi'' ''@privy-io/wagmi'',
                add_para_react]
               @ map (\<lambda>importUsage. replace_import importUsage
                          (privy_getParaImportReplacement (imp_import importUsage)))
                     (filter (\<lambda>i. imp_type i = T_privy) (st_imports st))
               @ map (\<lambda>provider. replace_provider provider
                          (generatePrivyProvider (pu_props provider))
                          (privy_generateParaProvider (pu_props provider)))
                     (filter (\<lambda>p. pu_provider p = ''PrivyProvider'') (providers st))
               @ hookOperations
               @ map add_para_css (entryPoints st)"
    using assms(1) by (auto simp: privy_execute_def split: sum.splits)
  have "op \<notin> set hookOperations"
    using privy_hook_operations_type[OF h] assms(3) by auto
  then show ?thesis
    using assms(2,3) unfolding o
    by (auto simp: remove_dependency_def add_para_react_def replace_import_def add_para_css_def)
qed

lemma reown_execute_provider_ops:
  assumes "op \<in> set (reown_execute st)" and "op_type op = Provider"
  shows "\<exists>p \<in> set (providers st).
           op = replace_provider p (generateReownProvider p) (reown_generateParaProvider (pu_props p))"
  using assms
  by (auto simp: reown_execute_def remove_dependency_def add_para_react_def replace_import_def
      replace_hook_def add_para_css_def split: option.splits)

lemma web3modal_execute_no_provider_ops:
  "op \<in> set (web3modal_execute st) \<Longrightarrow> op_type op \<noteq> Provider"
  by (auto simp: web3modal_execute_def remove_dependency_def add_para_react_def)

text \<open>
  Claim C3. Every operation of type \<open>Provider\<close> that the \<open>execute\<close> of a replacement
  strategy emits, for any project state, has a \<open>newValue\<close> that contains \<open>ParaModal\<close>.
\<close>

theorem provider_rewrite_contains_ParaModal:
  assumes "execute strat st = Inr ops" and "op \<in> set ops" and "op_type op = Provider"
  shows "str_includes (newValue op) ''ParaModal''"
proof (cases strat)
  case PrivyToParaStrategy
  then have "privy_execute st = Inr ops" using assms(1) by simp
  then obtain p where "op = replace_provider p (generatePrivyProvider (pu_props p))
                                      (privy_generateParaProvider (pu_props p))"
    using assms(2,3) privy_execute_provider_ops by blast
  then show ?thesis
    by (simp add: replace_provider_def privy_generateParaProvider_ParaModal)
next
  case ReownToParaStrategy
  then have "op \<in> set (reown_execute st)" using assms(1,2) by auto
  then obtain p where "op = replace_provider p (generateReownProvider p)
                                      (reown_generateParaProvider (pu_props p))"
    using assms(3) reown_execute_provider_ops by blast
  then show ?thesis
    by (simp add: replace_provider_def reown_generateParaProvider_ParaModal)
next
  case Web3ModalToParaStrategy
  then have "op \<in> set (web3modal_execute st)" using assms(1,2) by auto
  then show ?thesis
    using assms(3) web3modal_execute_no_provider_ops by blast
qed

lemma mock_execute:
  "execute PrivyToParaStrategy mockProjectState
     = Inr [remove_dependency ''remove-privy-deps'' ''@privy-io/react-auth'',
            remove_dependency ''remove-privy-wagmi'' ''@privy-io/wagmi'',
            add_para_react,
            replace_import (hd (st_imports mockProjectState)) ''useAccount'',
            mockProviderOp,
            add_para_css ''src/main.tsx'']"
  by (simp add: mockProviderOp_def privy_execute_def mockProjectState_def replace_provider_def
      generatePrivyProvider_def privy_generateParaProvider_def or_default_def get_prop_def
      privy_getParaImportReplacement_def)

text \<open>
  The theorem above at the project state of the test script: the Privy strategy emits the
  provider rewrite \<open>mockProviderOp\<close>, and its new value contains \<open>ParaModal\<close>.
\<close>

theorem provider_rewrite_witness:
  "execute PrivyToParaStrategy mockProjectState
     = Inr [remove_dependency ''remove-privy-deps'' ''@privy-io/react-auth'',
            remove_dependency ''remove-privy-wagmi'' ''@privy-io/wagmi'',
            add_para_react,
            replace_import (hd (st_imports mockProjectState)) ''useAccount'',
            mockProviderOp,
            add_para_css ''src/main.tsx'']
   \<and> op_type mockProviderOp = Provider
   \<and> str_includes (newValue mockProviderOp) ''ParaModal''"
proof -
  have t: "op_type mockProviderOp = Provider" by (simp add: mockProviderOp_def)
  have m: "mockProviderOp \<in> set [remove_dependency ''remove-privy-deps'' ''@privy-io/react-auth'',
            remove_dependency ''remove-privy-wagmi'' ''@privy-io/wagmi'',
            add_para_react,
            replace_import (hd (st_imports mockProjectState)) ''useAccount'',
            mockProviderOp,
            add_para_css ''src/main.tsx'']" by simp
  show ?thesis
    using provider_rewrite_contains_ParaModal[OF mock_execute m t] mock_execute t by blast
qed

section \<open>Properties of the migration engine\<close>

text \<open>
  Planning leaves the engine's own rollback field as it was: in an engine built by
  \<open>scanProjectState\<close> and \<open>createReplacementPlan\<close> from a new engine it is empty, while
  the generated rollback plan sits in the plan.
\<close>

lemma createReplacementPlan_rollback_field:
  assumes "createReplacementPlan strat eng = Inr (plan, eng')"
  shows "this_rollbackPlan eng' = this_rollbackPlan eng
         \<and> this_plan eng' = Some plan
         \<and> rollbackPlan plan = generateRollbackPlan (replacements plan)"
  using assms by (auto simp: createReplacementPlan_def Let_def split: option.splits)

lemma planned_engine_rollback_field_empty:
  assumes "createReplacementPlan strat (snd (scanProjectState path new_engine)) = Inr (plan, eng')"
  shows "this_rollbackPlan eng' = []"
  using createReplacementPlan_rollback_field[OF assms]
  by (simp add: scanProjectState_def new_engine_def Let_def)

lemma applied_append: "applied (xs @ ys) = applied xs @ applied ys"
  by (induction xs rule: applied.induct) auto

lemma undone_append: "undone (xs @ ys) = undone xs @ undone ys"
  by (induction xs rule: undone.induct) auto

lemma applied_map_Apply: "applied (map (\<lambda>p. Apply (f p)) ops) = map f ops"
  by (induction ops) auto

lemma undone_map_Apply: "undone (map (\<lambda>p. Apply (f p)) ops) = []"
  by (induction ops) auto

lemma applied_map_Undo: "applied (map (\<lambda>p. Undo (f p)) ops) = []"
  by (induction ops) auto

lemma undone_map_Undo: "undone (map (\<lambda>p. Undo (f p)) ops) = map f ops"
  by (induction ops) auto

lemma after_ops_Nil: "after_ops throws [] r = r"
  by (simp add: after_ops_def)

lemma after_ops_Cons:
  "after_ops throws (x # xs) r = after_ops throws xs (after_ops throws [x] r)"
  by (simp add: after_ops_def)

lemma after_ops_append:
  "after_ops throws (xs @ ys) r = after_ops throws ys (after_ops throws xs r)"
  by (simp add: after_ops_def)

lemma operations_loop_no_critical_failure:
  "no_critical_failure throws ops \<Longrightarrow> operations_loop throws ops r = (None, after_ops throws ops r)"
proof (induction ops arbitrary: r)
  case Nil
  show ?case by (simp add: after_ops_Nil)
next
  case (Cons x xs)
  from Cons.prems have x: "\<not> (throws x \<and> critical x)" and xs: "no_critical_failure throws xs"
    by (simp_all add: no_critical_failure_def)
  have step: "operations_loop throws (x # xs) r = operations_loop throws xs (after_ops throws [x] r)"
    using x by (auto simp: after_ops_def Let_def)
  show ?case
    unfolding step Cons.IH[OF xs] by (simp add: after_ops_Cons[symmetric])
qed

lemma operations_loop_critical_head:
  "throws x \<Longrightarrow> critical x \<Longrightarrow>
   operations_loop throws (x # xs) r
     = (Some (''Critical operation failed: '' @ op_id x), after_ops throws [x] r)"
  by (simp add: after_ops_def Let_def)

lemma operations_loop_append:
  "no_critical_failure throws before \<Longrightarrow>
   operations_loop throws (before @ ops) r = operations_loop throws ops (after_ops throws before r)"
proof (induction before arbitrary: r)
  case Nil
  show ?case by (simp add: after_ops_Nil)
next
  case (Cons x xs)
  from Cons.prems have x: "\<not> (throws x \<and> critical x)" and xs: "no_critical_failure throws xs"
    by (simp_all add: no_critical_failure_def)
  have step: "operations_loop throws (x # (xs @ ops)) r
                = operations_loop throws (xs @ ops) (after_ops throws [x] r)"
    using x by (auto simp: after_ops_def Let_def)
  show ?case
    using step Cons.IH[OF xs, of "after_ops throws [x] r"]
    by (simp add: after_ops_Cons[symmetric])
qed

lemma operations_loop_first_critical_failure:
  assumes "no_critical_failure throws before" and "throws x" and "critical x"
  shows "operations_loop throws (before @ x # rest) r
           = (Some (''Critical operation failed: '' @ op_id x), after_ops throws (before @ [x]) r)"
proof -
  have "operations_loop throws (before @ x # rest) r
          = operations_loop throws (x # rest) (after_ops throws before r)"
    using assms(1) by (rule operations_loop_append)
  also have "\<dots> = (Some (''Critical operation failed: '' @ op_id x),
                     after_ops throws [x] (after_ops throws before r))"
    using assms(2,3) by (rule operations_loop_critical_head)
  finally show ?thesis by (simp only: after_ops_append)
qed

lemma rollback_loop_all_complete:
  "all_complete rs \<Longrightarrow> rollback_loop rs tr = (None, tr @ map (\<lambda>x. Undo (operationId x)) rs)"
  by (induction rs arbitrary: tr) (auto simp: all_complete_def)

lemma rollback_loop_first_failure:
  assumes "all_complete ok" and "action bad = Inl msg"
  shows "rollback_loop (ok @ bad # rest) tr
           = (Some msg, tr @ map (\<lambda>x. Undo (operationId x)) (ok @ [bad]))"
  using assms by (induction ok arbitrary: tr) (auto simp: all_complete_def)

lemma all_complete_rev: "all_complete (rev rs) = all_complete rs"
  by (simp add: all_complete_def list_all_iff)

lemma not_all_complete_split:
  "\<not> all_complete rs \<Longrightarrow>
   \<exists>ok bad rest msg. rs = ok @ bad # rest \<and> all_complete ok \<and> action bad = Inl msg"
proof (induction rs)
  case Nil
  then show ?case by (simp add: all_complete_def)
next
  case (Cons x xs)
  show ?case
  proof (cases "action x")
    case (Inl msg)
    then have "x # xs = [] @ x # xs \<and> all_complete [] \<and> action x = Inl msg"
      by (simp add: all_complete_def)
    then show ?thesis by blast
  next
    case (Inr u)
    then have "\<not> all_complete xs" using Cons.prems by (simp add: all_complete_def)
    then obtain ok bad rest msg where
      "xs = ok @ bad # rest" "all_complete ok" "action bad = Inl msg"
      using Cons.IH by blast
    then have "x # xs = (x # ok) @ bad # rest \<and> all_complete (x # ok) \<and> action bad = Inl msg"
      using Inr by (simp add: all_complete_def)
    then show ?thesis by blast
  qed
qed

text \<open>What the failure handler makes of the run that left the try block.\<close>

lemma executeAtomicMigration_rollback_ok:
  assumes "this_plan eng = Some plan"
    and "try_block throws eng plan \<lparr>res = initial_result, trace = []\<rparr> = (Some e, r)"
    and "all_complete (this_rollbackPlan eng)"
  shows "executeAtomicMigration throws t0 t1 eng =
           Inr \<lparr>final_result = (res r)\<lparr>rollbackExecuted := True, duration := t1 - t0\<rparr>,
                events = trace r @ map (\<lambda>x. Undo (operationId x)) (rev (this_rollbackPlan eng)),
                engine = eng\<lparr>this_rollbackPlan := rev (this_rollbackPlan eng)\<rparr>\<rparr>"
  using assms
  by (simp add: executeAtomicMigration_def executeRollback_def Let_def
      rollback_loop_all_complete all_complete_rev)

lemma executeAtomicMigration_rollback_fails:
  assumes "this_plan eng = Some plan"
    and "try_block throws eng plan \<lparr>res = initial_result, trace = []\<rparr> = (Some e, r)"
    and "rev (this_rollbackPlan eng) = ok @ bad # rest"
    and "all_complete ok" and "action bad = Inl msg"
  shows "executeAtomicMigration throws t0 t1 eng =
           Inr \<lparr>final_result = (res r)\<lparr>result_issues := result_issues (res r) @ [rollback_failed msg],
                                       duration := t1 - t0\<rparr>,
                events = trace r @ map (\<lambda>x. Undo (operationId x)) (ok @ [bad]),
                engine = eng\<lparr>this_rollbackPlan := rev (this_rollbackPlan eng)\<rparr>\<rparr>"
  using assms
  by (simp add: executeAtomicMigration_def executeRollback_def Let_def
      rollback_loop_first_failure)

lemma executeAtomicMigration_no_rollback:
  assumes "this_plan eng = Some plan"
    and "try_block throws eng plan \<lparr>res = initial_result, trace = []\<rparr> = (None, r)"
  shows "executeAtomicMigration throws t0 t1 eng =
           Inr \<lparr>final_result = (res r)\<lparr>duration := t1 - t0\<rparr>, events = trace r, engine = eng\<rparr>"
  using assms by (simp add: executeAtomicMigration_def)


lemma operations_loop_rollbackExecuted:
  "rollbackExecuted (res (snd (operations_loop throws ops r))) = rollbackExecuted (res r)"
  by (induction ops arbitrary: r) (auto simp: Let_def)

lemma operations_loop_undone:
  "undone (trace (snd (operations_loop throws ops r))) = undone (trace r)"
  by (induction ops arbitrary: r) (auto simp: Let_def undone_append)

lemma try_block_rollbackExecuted:
  "rollbackExecuted (res (snd (try_block throws eng plan r))) = rollbackExecuted (res r)"
proof -
  have "rollbackExecuted (res b) = rollbackExecuted (res r')"
    if "operations_loop throws ops r' = (a, b)" for ops r' a b
    using operations_loop_rollbackExecuted[of throws ops r'] that by simp
  then show ?thesis
    by (auto simp: try_block_def Let_def split: sum.splits prod.splits option.splits)
qed

lemma try_block_undone:
  "undone (trace (snd (try_block throws eng plan r))) = undone (trace r)"
proof -
  have "undone (trace b) = undone (trace r')"
    if "operations_loop throws ops r' = (a, b)" for ops r' a b
    using operations_loop_undone[of throws ops r'] that by simp
  then show ?thesis
    by (auto simp: try_block_def Let_def split: sum.splits prod.splits option.splits)
qed

lemma try_block_invalid_pre:
  assumes "runValidations eng Pre = Inr preValidation" and "\<not> valid preValidation"
  shows "try_block throws eng plan \<lparr>res = initial_result, trace = []\<rparr>
           = (Some ''Pre-flight validation failed'',
              \<lparr>res = initial_result\<lparr>validationResults := [preValidation],
                                      result_issues := issues preValidation\<rparr>,
               trace = []\<rparr>)"
  using assms by (simp add: try_block_def initial_result_def)

lemma try_block_critical_failure:
  assumes "runValidations eng Pre = Inr preValidation" and "valid preValidation"
    and "replacements plan = before @ x # rest"
    and "no_critical_failure throws before" and "throws x" and "critical x"
  shows "try_block throws eng plan \<lparr>res = initial_result, trace = []\<rparr>
           = (Some (''Critical operation failed: '' @ op_id x),
              after_ops throws (before @ [x])
                \<lparr>res = initial_result\<lparr>validationResults := [preValidation]\<rparr>, trace = []\<rparr>)"
  using assms
  by (simp add: try_block_def initial_result_def operations_loop_first_critical_failure
      del: operations_loop.simps)

lemma try_block_success:
  assumes "runValidations eng Pre = Inr preValidation" and "valid preValidation"
    and "runValidations eng Post = Inr postValidation" and "valid postValidation"
    and "no_critical_failure throws (replacements plan)"
  shows "try_block throws eng plan \<lparr>res = initial_result, trace = []\<rparr>
           = (None,
              (after_ops throws (replacements plan)
                \<lparr>res = initial_result\<lparr>validationResults := [preValidation]\<rparr>, trace = []\<rparr>)
              \<lparr>res := (res (after_ops throws (replacements plan)
                          \<lparr>res = initial_result\<lparr>validationResults := [preValidation]\<rparr>, trace = []\<rparr>))
                        \<lparr>validationResults := [preValidation, postValidation], success := True\<rparr>\<rparr>)"
  using assms
  by (simp add: try_block_def initial_result_def operations_loop_no_critical_failure after_ops_def)

text \<open>The handler of the \<open>catch\<close> block, whatever made the try block fail.\<close>

lemma executeAtomicMigration_failure:
  assumes "this_plan eng = Some plan"
    and "try_block throws eng plan \<lparr>res = initial_result, trace = []\<rparr> = (Some e, r)"
  shows "\<exists>out extra. executeAtomicMigration throws t0 t1 eng = Inr out
           \<and> final_result out = (res r)\<lparr>rollbackExecuted := all_complete (this_rollbackPlan eng),
                                           duration := t1 - t0,
                                           result_issues := result_issues (res r) @ extra\<rparr>
           \<and> (all_complete (this_rollbackPlan eng) \<longrightarrow> extra = [])
           \<and> applied (events out) = applied (trace r)"
proof (cases "all_complete (this_rollbackPlan eng)")
  case True
  show ?thesis
    using executeAtomicMigration_rollback_ok[OF assms True, of t0 t1] True
    by (simp add: applied_append applied_map_Undo)
next
  case False
  then have "\<not> all_complete (rev (this_rollbackPlan eng))" by (simp add: all_complete_rev)
  then obtain ok bad rest msg where
    sp: "rev (this_rollbackPlan eng) = ok @ bad # rest" "all_complete ok" "action bad = Inl msg"
    using not_all_complete_split by blast
  have "rollbackExecuted (res r) = False"
    using try_block_rollbackExecuted[of throws eng plan "\<lparr>res = initial_result, trace = []\<rparr>"] assms(2)
    by (simp add: initial_result_def)
  then have "(res r)\<lparr>result_issues := result_issues (res r) @ [rollback_failed msg], duration := t1 - t0\<rparr>
         = (res r)\<lparr>rollbackExecuted := False, duration := t1 - t0,
                   result_issues := result_issues (res r) @ [rollback_failed msg]\<rparr>"
    by (cases "res r") simp
  then have "executeAtomicMigration throws t0 t1 eng =
           Inr \<lparr>final_result = (res r)\<lparr>rollbackExecuted := False, duration := t1 - t0,
                     result_issues := result_issues (res r) @ [rollback_failed msg]\<rparr>,
                events = trace r @ map (\<lambda>x. Undo (operationId x)) (ok @ [bad]),
                engine = eng\<lparr>this_rollbackPlan := rev (this_rollbackPlan eng)\<rparr>\<rparr>"
    using executeAtomicMigration_rollback_fails[OF assms sp, of t0 t1] by simp
  then show ?thesis
    using False
    by (intro exI[of _ "\<lparr>final_result = (res r)\<lparr>rollbackExecuted := False, duration := t1 - t0,
                     result_issues := result_issues (res r) @ [rollback_failed msg]\<rparr>,
                events = trace r @ map (\<lambda>x. Undo (operationId x)) (ok @ [bad]),
                engine = eng\<lparr>this_rollbackPlan := rev (this_rollbackPlan eng)\<rparr>\<rparr>"]
              exI[of _ "[rollback_failed msg]"])
       (simp add: applied_append applied_map_Undo)
qed

lemma critical_failure_outcome:
  assumes "this_plan eng = Some plan"
    and "runValidations eng Pre = Inr preValidation" and "valid preValidation"
    and "k < length (replacements plan)"
    and "throws (replacements plan ! k)" and "critical (replacements plan ! k)"
    and "no_critical_failure throws (take k (replacements plan))"
  shows "\<exists>out. executeAtomicMigration throws t0 t1 eng = Inr out
           \<and> \<not> success (final_result out)
           \<and> completedOperations (final_result out)
               = map op_id (filter (\<lambda>p. \<not> throws p) (take k (replacements plan)))
           \<and> failedOperations (final_result out)
               = map op_id (filter throws (take (Suc k) (replacements plan)))
           \<and> applied (events out) = map op_id (take (Suc k) (replacements plan))
           \<and> (list_all (\<lambda>p. \<not> throws p) (take k (replacements plan))
                \<longrightarrow> completedOperations (final_result out) = map op_id (take k (replacements plan)))
           \<and> (rollbackExecuted (final_result out) \<longleftrightarrow> all_complete (this_rollbackPlan eng))"
proof -
  let ?rs = "replacements plan"
  let ?r1 = "\<lparr>res = initial_result\<lparr>validationResults := [preValidation]\<rparr>, trace = []\<rparr>"
  have split: "?rs = take k ?rs @ ?rs ! k # drop (Suc k) ?rs"
    using assms(4) by (rule id_take_nth_drop)
  have tk: "take (Suc k) ?rs = take k ?rs @ [?rs ! k]"
    using assms(4) by (rule take_Suc_conv_app_nth)
  have tb: "try_block throws eng plan \<lparr>res = initial_result, trace = []\<rparr>
              = (Some (''Critical operation failed: '' @ op_id (?rs ! k)),
                 after_ops throws (take (Suc k) ?rs) ?r1)"
    unfolding tk
    using assms(2,3) split assms(7,5,6) by (rule try_block_critical_failure)
  obtain out extra where
    ex: "executeAtomicMigration throws t0 t1 eng = Inr out"
    and fr: "final_result out = (res (after_ops throws (take (Suc k) ?rs) ?r1))
               \<lparr>rollbackExecuted := all_complete (this_rollbackPlan eng), duration := t1 - t0,
                result_issues := result_issues (res (after_ops throws (take (Suc k) ?rs) ?r1)) @ extra\<rparr>"
    and ap: "applied (events out) = applied (trace (after_ops throws (take (Suc k) ?rs) ?r1))"
    using executeAtomicMigration_failure[OF assms(1) tb, of t0 t1] by blast
  have c: "completedOperations (final_result out) = map op_id (filter (\<lambda>p. \<not> throws p) (take k ?rs))"
    unfolding fr tk using assms(5) by (simp add: after_ops_def initial_result_def)
  have f: "failedOperations (final_result out) = map op_id (filter throws (take (Suc k) ?rs))"
    unfolding fr by (simp add: after_ops_def initial_result_def)
  have s: "\<not> success (final_result out)"
    unfolding fr by (simp add: after_ops_def initial_result_def)
  have a: "applied (events out) = map op_id (take (Suc k) ?rs)"
    unfolding ap by (simp add: after_ops_def applied_map_Apply)
  have rb: "rollbackExecuted (final_result out) \<longleftrightarrow> all_complete (this_rollbackPlan eng)"
    unfolding fr by simp
  have all: "completedOperations (final_result out) = map op_id (take k ?rs)"
    if "list_all (\<lambda>p. \<not> throws p) (take k ?rs)"
  proof -
    have "filter (\<lambda>p. \<not> throws p) (take k ?rs) = take k ?rs"
      using that by (simp add: list_all_iff)
    then show ?thesis using c by simp
  qed
  show ?thesis using ex s c f a all rb by blast
qed


lemma critical_failure_split:
  "\<not> no_critical_failure throws rs \<Longrightarrow>
   \<exists>before x rest. rs = before @ x # rest \<and> no_critical_failure throws before
                    \<and> throws x \<and> critical x"
proof (induction rs)
  case Nil
  then show ?case by (simp add: no_critical_failure_def)
next
  case (Cons y ys)
  show ?case
  proof (cases "throws y \<and> critical y")
    case True
    then have "y # ys = [] @ y # ys \<and> no_critical_failure throws [] \<and> throws y \<and> critical y"
      by (simp add: no_critical_failure_def)
    then show ?thesis by blast
  next
    case False
    then have "\<not> no_critical_failure throws ys"
      using Cons.prems by (simp add: no_critical_failure_def)
    then obtain before x rest where
      "ys = before @ x # rest" "no_critical_failure throws before" "throws x" "critical x"
      using Cons.IH by blast
    then have "y # ys = (y # before) @ x # rest \<and> no_critical_failure throws (y # before)
               \<and> throws x \<and> critical x"
      using False by (simp add: no_critical_failure_def)
    then show ?thesis by blast
  qed
qed

lemma first_critical_failure_index:
  assumes "\<not> no_critical_failure throws rs"
  shows "\<exists>k < length rs. throws (rs ! k) \<and> critical (rs ! k) \<and> no_critical_failure throws (take k rs)"
proof -
  obtain before x rest where
    sp: "rs = before @ x # rest" "no_critical_failure throws before" "throws x" "critical x"
    using critical_failure_split[OF assms] by blast
  have "length before < length rs" using sp(1) by simp
  moreover have "rs ! length before = x" using sp(1) by simp
  moreover have "take (length before) rs = before" using sp(1) by simp
  ultimately show ?thesis using sp(2,3,4) by metis
qed

lemma try_block_no_critical_failure:
  assumes "runValidations eng Pre = Inr preValidation" and "valid preValidation"
    and "no_critical_failure throws (replacements plan)"
  shows "\<exists>e r. try_block throws eng plan \<lparr>res = initial_result, trace = []\<rparr> = (e, r)
           \<and> applied (trace r) = map op_id (replacements plan)
           \<and> failedOperations (res r) = map op_id (filter throws (replacements plan))
           \<and> completedOperations (res r)
               = map op_id (filter (\<lambda>p. \<not> throws p) (replacements plan))"
  using assms
  by (auto simp: try_block_def initial_result_def operations_loop_no_critical_failure after_ops_def
      applied_map_Apply Let_def split: sum.splits)

lemma no_critical_failure_outcome:
  assumes "this_plan eng = Some plan"
    and "runValidations eng Pre = Inr preValidation" and "valid preValidation"
    and "no_critical_failure throws (replacements plan)"
  shows "\<exists>out. executeAtomicMigration throws t0 t1 eng = Inr out
           \<and> applied (events out) = map op_id (replacements plan)
           \<and> failedOperations (final_result out) = map op_id (filter throws (replacements plan))
           \<and> completedOperations (final_result out)
               = map op_id (filter (\<lambda>p. \<not> throws p) (replacements plan))"
proof -
  obtain e r where
    tb: "try_block throws eng plan \<lparr>res = initial_result, trace = []\<rparr> = (e, r)"
    and r: "applied (trace r) = map op_id (replacements plan)"
       "failedOperations (res r) = map op_id (filter throws (replacements plan))"
       "completedOperations (res r) = map op_id (filter (\<lambda>p. \<not> throws p) (replacements plan))"
    using try_block_no_critical_failure[OF assms(2,3,4)] by blast
  show ?thesis
  proof (cases e)
    case None
    then show ?thesis
      using executeAtomicMigration_no_rollback[OF assms(1), of throws r t0 t1] tb r by simp
  next
    case (Some err)
    then obtain out extra where
      "executeAtomicMigration throws t0 t1 eng = Inr out"
      "final_result out = (res r)\<lparr>rollbackExecuted := all_complete (this_rollbackPlan eng),
                                   duration := t1 - t0,
                                   result_issues := result_issues (res r) @ extra\<rparr>"
      "applied (events out) = applied (trace r)"
      using executeAtomicMigration_failure[OF assms(1), of throws err r t0 t1] tb by blast
    then show ?thesis using r by simp
  qed
qed

text \<open>
  Claim C1 (amended). When pre-flight validation is valid and the first operation that
  fails critically is at plan index \<open>k\<close>, \<open>executeAtomicMigration\<close> applies exactly the
  operations at indices 0 to \<open>k\<close> and returns \<open>success = false\<close>; \<open>failedOperations\<close>
  holds the ids of the operations at indices 0 to \<open>k\<close> that threw, and
  \<open>completedOperations\<close> the ids of the operations before \<open>k\<close> that did not throw, in
  plan order: the ids of all operations before \<open>k\<close> when none of them threw.
  \<open>rollbackExecuted\<close> is true exactly when every action of the engine's rollback list
  completes.
\<close>

theorem critical_failure_result:
  assumes "this_plan eng = Some plan"
    and "runValidations eng Pre = Inr preValidation" and "valid preValidation"
    and "k < length (replacements plan)"
    and "throws (replacements plan ! k)" and "critical (replacements plan ! k)"
    and "no_critical_failure throws (take k (replacements plan))"
  shows "\<exists>out. executeAtomicMigration throws t0 t1 eng = Inr out
           \<and> \<not> success (final_result out)
           \<and> completedOperations (final_result out)
               = map op_id (filter (\<lambda>p. \<not> throws p) (take k (replacements plan)))
           \<and> failedOperations (final_result out)
               = map op_id (filter throws (take (Suc k) (replacements plan)))
           \<and> applied (events out) = map op_id (take (Suc k) (replacements plan))
           \<and> (list_all (\<lambda>p. \<not> throws p) (take k (replacements plan))
                \<longrightarrow> completedOperations (final_result out) = map op_id (take k (replacements plan)))
           \<and> (rollbackExecuted (final_result out) \<longleftrightarrow> all_complete (this_rollbackPlan eng))"
  using assms by (rule critical_failure_outcome)

text \<open>
  Claim C2 (amended). When the try block of \<open>executeAtomicMigration\<close> fails, the actions
  of the engine's rollback list are invoked in reverse order. If all of them complete, all
  are invoked, \<open>rollbackExecuted\<close> is true and no issue is added. Otherwise the first
  action that throws ends the rollback: the actions after it are not invoked,
  \<open>rollbackExecuted\<close> stays false, and one critical \<open>ROLLBACK_FAILED\<close> issue with the
  text of the error is appended to the issues.
\<close>

theorem rollback_stops_at_first_failing_action:
  assumes "this_plan eng = Some plan"
    and "try_block throws eng plan \<lparr>res = initial_result, trace = []\<rparr> = (Some e, r)"
  shows "\<exists>out. executeAtomicMigration throws t0 t1 eng = Inr out
           \<and> (all_complete (this_rollbackPlan eng) \<longrightarrow>
                undone (events out) = map operationId (rev (this_rollbackPlan eng))
                \<and> rollbackExecuted (final_result out)
                \<and> result_issues (final_result out) = result_issues (res r))
           \<and> (\<forall>ok bad rest msg.
                rev (this_rollbackPlan eng) = ok @ bad # rest \<and> all_complete ok \<and> action bad = Inl msg
                \<longrightarrow> undone (events out) = map operationId (ok @ [bad])
                    \<and> \<not> rollbackExecuted (final_result out)
                    \<and> result_issues (final_result out) = result_issues (res r) @ [rollback_failed msg])"
proof -
  have u: "undone (trace r) = []"
    using try_block_undone[of throws eng plan "\<lparr>res = initial_result, trace = []\<rparr>"] assms(2) by simp
  have nr: "\<not> rollbackExecuted (res r)"
    using try_block_rollbackExecuted[of throws eng plan "\<lparr>res = initial_result, trace = []\<rparr>"] assms(2)
    by (simp add: initial_result_def)
  show ?thesis
  proof (cases "all_complete (this_rollbackPlan eng)")
    case True
    have no_split: False
      if "rev (this_rollbackPlan eng) = ok @ bad # rest" "action bad = Inl msg" for ok bad rest msg
    proof -
      have "bad \<in> set (this_rollbackPlan eng)"
        using that(1) by (metis in_set_conv_decomp set_rev)
      then have "action bad = Inr ()" using True by (simp add: all_complete_def list_all_iff)
      then show False using that(2) by simp
    qed
    show ?thesis
      using executeAtomicMigration_rollback_ok[OF assms True, of t0 t1] u no_split
      by (auto simp: undone_append undone_map_Undo)
  next
    case False
    then have "\<not> all_complete (rev (this_rollbackPlan eng))" by (simp add: all_complete_rev)
    then obtain ok bad rest msg where
      sp: "rev (this_rollbackPlan eng) = ok @ bad # rest" "all_complete ok" "action bad = Inl msg"
      using not_all_complete_split by blast
    have uniq: "ok' = ok \<and> bad' = bad \<and> msg' = msg"
      if "rev (this_rollbackPlan eng) = ok' @ bad' # rest'" "all_complete ok'" "action bad' = Inl msg'"
      for ok' bad' rest' msg'
    proof -
      have l1: "rollback_loop (ok @ bad # rest) [] = (Some msg, map (\<lambda>x. Undo (operationId x)) (ok @ [bad]))"
        using rollback_loop_first_failure[OF sp(2,3), of rest "[]"] by simp
      have l2: "rollback_loop (ok' @ bad' # rest') [] = (Some msg', map (\<lambda>x. Undo (operationId x)) (ok' @ [bad']))"
        using rollback_loop_first_failure[OF that(2,3), of rest' "[]"] by simp
      have eq: "ok @ bad # rest = ok' @ bad' # rest'" using sp(1) that(1) by simp
      have m: "msg' = msg" and len: "length (ok @ [bad]) = length (ok' @ [bad'])"
        using l1 l2 eq by (auto dest: arg_cong[where f = length])
      have "take (length ok) (ok @ bad # rest) = take (length ok) (ok' @ bad' # rest')"
        using eq by simp
      then have o: "ok = ok'" using len by simp
      then have "bad = bad'" using eq by simp
      then show ?thesis using o m by simp
    qed
    show ?thesis
      using executeAtomicMigration_rollback_fails[OF assms sp, of t0 t1] u nr False uniq
      by (auto simp: undone_append undone_map_Undo)
  qed
qed

lemma success_outcome:
  assumes "this_plan eng = Some plan"
    and "runValidations eng Pre = Inr preValidation" and "valid preValidation"
    and "runValidations eng Post = Inr postValidation" and "valid postValidation"
    and "no_critical_failure throws (replacements plan)"
  shows "\<exists>out. executeAtomicMigration throws t0 t1 eng = Inr out
           \<and> success (final_result out)
           \<and> \<not> rollbackExecuted (final_result out)
           \<and> failedOperations (final_result out) = map op_id (filter throws (replacements plan))
           \<and> completedOperations (final_result out)
               = map op_id (filter (\<lambda>p. \<not> throws p) (replacements plan))
           \<and> applied (events out) = map op_id (replacements plan)
           \<and> undone (events out) = []
           \<and> result_issues (final_result out) = []"
  using executeAtomicMigration_no_rollback[OF assms(1) try_block_success[OF assms(2-6)], of t0 t1]
  by (simp add: after_ops_def initial_result_def applied_map_Apply undone_map_Apply)


text \<open>
  Claim C4. An operation that throws and is not critical, reached by the loop at index
  \<open>j\<close>, is recorded in \<open>failedOperations\<close>, and the loop goes on with the operation at
  index \<open>j + 1\<close> when there is one. When no operation fails critically and post-migration
  validation is valid, the result has \<open>success = true\<close>, every operation of the plan was
  applied in plan order, no inverse action was invoked and \<open>rollbackExecuted\<close> is false,
  whichever operations failed.
\<close>

theorem noncritical_failures_tolerated:
  assumes "this_plan eng = Some plan"
    and "runValidations eng Pre = Inr preValidation" and "valid preValidation"
    and "j < length (replacements plan)"
    and "throws (replacements plan ! j)" and "\<not> critical (replacements plan ! j)"
    and "no_critical_failure throws (take j (replacements plan))"
  shows "\<exists>out. executeAtomicMigration throws t0 t1 eng = Inr out
           \<and> op_id (replacements plan ! j) \<in> set (failedOperations (final_result out))
           \<and> take (Suc j) (applied (events out)) = map op_id (take (Suc j) (replacements plan))
           \<and> (Suc j < length (replacements plan) \<longrightarrow>
                take (Suc (Suc j)) (applied (events out))
                  = map op_id (take (Suc (Suc j)) (replacements plan)))
           \<and> (no_critical_failure throws (replacements plan)
                \<and> runValidations eng Post = Inr postValidation \<and> valid postValidation
              \<longrightarrow> success (final_result out)
                  \<and> \<not> rollbackExecuted (final_result out)
                  \<and> undone (events out) = []
                  \<and> applied (events out) = map op_id (replacements plan)
                  \<and> failedOperations (final_result out)
                      = map op_id (filter throws (replacements plan))
                  \<and> completedOperations (final_result out)
                      = map op_id (filter (\<lambda>p. \<not> throws p) (replacements plan)))"
proof (cases "no_critical_failure throws (replacements plan)")
  case True
  let ?rs = "replacements plan"
  obtain out where
    ex: "executeAtomicMigration throws t0 t1 eng = Inr out"
    and ap: "applied (events out) = map op_id ?rs"
    and fl: "failedOperations (final_result out) = map op_id (filter throws ?rs)"
    using no_critical_failure_outcome[OF assms(1,2,3) True, of t0 t1] by blast
  have "?rs ! j \<in> set (filter throws ?rs)"
    using assms(4,5) by simp
  then have rec: "op_id (?rs ! j) \<in> set (failedOperations (final_result out))"
    unfolding fl by simp
  have t1: "take n (applied (events out)) = map op_id (take n ?rs)" for n
    unfolding ap by (simp add: take_map)
  have post: "success (final_result out) \<and> \<not> rollbackExecuted (final_result out)
              \<and> undone (events out) = [] \<and> applied (events out) = map op_id ?rs
              \<and> failedOperations (final_result out) = map op_id (filter throws ?rs)
              \<and> completedOperations (final_result out) = map op_id (filter (\<lambda>p. \<not> throws p) ?rs)"
    if "runValidations eng Post = Inr postValidation" "valid postValidation"
    using success_outcome[OF assms(1,2,3) that True, of t0 t1] ex by auto
  show ?thesis
    using ex rec t1 post by blast
next
  case False
  let ?rs = "replacements plan"
  obtain k where k: "k < length ?rs" "throws (?rs ! k)" "critical (?rs ! k)"
    "no_critical_failure throws (take k ?rs)"
    using first_critical_failure_index[OF False] by blast
  have jk: "j < k"
  proof (rule ccontr)
    assume "\<not> j < k"
    then have "k < j \<or> k = j" by auto
    then show False
    proof
      assume "k < j"
      then have "?rs ! k \<in> set (take j ?rs)"
        using assms(4) by (simp add: in_set_conv_nth) (metis k(1) min.absorb2 less_imp_le nth_take)
      then have "\<not> (throws (?rs ! k) \<and> critical (?rs ! k))"
        using assms(7) by (simp add: no_critical_failure_def list_all_iff)
      then show False using k(2,3) by simp
    next
      assume "k = j"
      then show False using k(3) assms(6) by simp
    qed
  qed
  obtain out where
    ex: "executeAtomicMigration throws t0 t1 eng = Inr out"
    and fl: "failedOperations (final_result out) = map op_id (filter throws (take (Suc k) ?rs))"
    and ap: "applied (events out) = map op_id (take (Suc k) ?rs)"
    using critical_failure_outcome[OF assms(1,2,3) k, of t0 t1] by blast
  have "?rs ! j \<in> set (take (Suc k) ?rs)"
    using jk k(1) by (simp add: in_set_conv_nth) (metis Suc_leI le_imp_less_Suc less_imp_le min.absorb2 nth_take less_Suc_eq)
  then have "?rs ! j \<in> set (filter throws (take (Suc k) ?rs))"
    using assms(5) by simp
  then have rec: "op_id (?rs ! j) \<in> set (failedOperations (final_result out))"
    unfolding fl by simp
  have t1: "take n (applied (events out)) = map op_id (take n ?rs)" if "n \<le> Suc k" for n
    unfolding ap using that by (simp add: take_map min.absorb1)
  show ?thesis
    using ex rec t1[of "Suc j"] t1[of "Suc (Suc j)"] jk False by auto
qed

text \<open>
  Claim C5 (amended). When pre-flight validation is invalid, no operation is applied: the
  result has \<open>success = false\<close>, empty \<open>completedOperations\<close> and \<open>failedOperations\<close>,
  the pre-flight result as its only validation result, and issues that begin with the
  pre-flight issues. The failure handler still runs the rollback routine over the engine's
  rollback list: \<open>rollbackExecuted\<close> is true exactly when every action of that list
  completes, and then nothing is added to the issues.
\<close>

theorem invalid_preflight_result:
  assumes "this_plan eng = Some plan"
    and "runValidations eng Pre = Inr preValidation" and "\<not> valid preValidation"
  shows "\<exists>out extra. executeAtomicMigration throws t0 t1 eng = Inr out
           \<and> \<not> success (final_result out)
           \<and> completedOperations (final_result out) = []
           \<and> failedOperations (final_result out) = []
           \<and> applied (events out) = []
           \<and> validationResults (final_result out) = [preValidation]
           \<and> result_issues (final_result out) = issues preValidation @ extra
           \<and> (rollbackExecuted (final_result out) \<longrightarrow> extra = [])
           \<and> (rollbackExecuted (final_result out) \<longleftrightarrow> all_complete (this_rollbackPlan eng))"
proof -
  note tb = try_block_invalid_pre[OF assms(2,3), of throws plan]
  obtain out extra where
    ex: "executeAtomicMigration throws t0 t1 eng = Inr out"
    and fr: "final_result out = (initial_result\<lparr>validationResults := [preValidation],
                                      result_issues := issues preValidation\<rparr>)
               \<lparr>rollbackExecuted := all_complete (this_rollbackPlan eng), duration := t1 - t0,
                result_issues := issues preValidation @ extra\<rparr>"
    and e: "all_complete (this_rollbackPlan eng) \<longrightarrow> extra = []"
    and ap: "applied (events out) = []"
    using executeAtomicMigration_failure[OF assms(1) tb, of t0 t1] by auto
  show ?thesis
    using ex e ap fr
    by (intro exI[of _ out] exI[of _ extra]) (auto simp: initial_result_def)
qed



lemmas engine_defs =
  executeAtomicMigration_def try_block_def runValidations_def executeRollback_def
  sampleEngine_def samplePlan_def sampleOperations_def engineWithRollback_def engineInvalidPre_def
  generateValidations_def generateRollbackPlan_def estimateTime_def
  throws_ids_def remove_dependency_def add_para_react_def replace_hook_def add_para_css_def
  initial_result_def empty_result_def absorb_def rollback_failed_def
  no_critical_failure_def all_complete_def

text \<open>
  The original wording of the first claim fails at the sample engine when the hook rewrite
  (index 2, not critical) and the style insertion (index 3, critical) throw:
  \<open>completedOperations\<close> is not the list of the ids at indices 0 to 2, and no inverse
  action is invoked although \<open>rollbackExecuted\<close> is true.
\<close>

theorem critical_failure_counterexample:
  "executeAtomicMigration (throws_ids [''replace-hook-src/App.tsx-7'', ''add-para-css-src/main.tsx''])
       100 250 sampleEngine
     = Inr \<lparr>final_result =
              \<lparr>success = False,
               completedOperations = [''remove-privy-deps'', ''add-para-react''],
               failedOperations = [''replace-hook-src/App.tsx-7'', ''add-para-css-src/main.tsx''],
               validationResults = [\<lparr>valid = True, issues = [], warnings = []\<rparr>],
               rollbackExecuted = True, duration = 150, result_issues = []\<rparr>,
            events = [Apply ''remove-privy-deps'', Apply ''add-para-react'',
                      Apply ''replace-hook-src/App.tsx-7'', Apply ''add-para-css-src/main.tsx''],
            engine = sampleEngine\<rparr>
   \<and> critical (replacements samplePlan ! 3)
   \<and> map op_id (take 3 (replacements samplePlan))
       = [''remove-privy-deps'', ''add-para-react'', ''replace-hook-src/App.tsx-7'']"
  by (simp add: engine_defs)

text \<open>
  The theorem on critical failures at the same run of the sample engine.
\<close>

theorem critical_failure_witness:
  "this_plan sampleEngine = Some samplePlan
   \<and> runValidations sampleEngine Pre = Inr empty_result \<and> valid empty_result
   \<and> 3 < length (replacements samplePlan)
   \<and> throws_ids [''replace-hook-src/App.tsx-7'', ''add-para-css-src/main.tsx''] (replacements samplePlan ! 3)
   \<and> critical (replacements samplePlan ! 3)
   \<and> no_critical_failure (throws_ids [''replace-hook-src/App.tsx-7'', ''add-para-css-src/main.tsx''])
        (take 3 (replacements samplePlan))
   \<and> (\<exists>out. executeAtomicMigration
                (throws_ids [''replace-hook-src/App.tsx-7'', ''add-para-css-src/main.tsx'']) 100 250 sampleEngine
              = Inr out
            \<and> \<not> success (final_result out)
            \<and> completedOperations (final_result out) = [''remove-privy-deps'', ''add-para-react'']
            \<and> failedOperations (final_result out)
                = [''replace-hook-src/App.tsx-7'', ''add-para-css-src/main.tsx'']
            \<and> applied (events out) = [''remove-privy-deps'', ''add-para-react'',
                 ''replace-hook-src/App.tsx-7'', ''add-para-css-src/main.tsx'']
            \<and> rollbackExecuted (final_result out))"
proof -
  let ?t = "throws_ids [''replace-hook-src/App.tsx-7'', ''add-para-css-src/main.tsx'']"
  have h1: "this_plan sampleEngine = Some samplePlan" by (simp add: sampleEngine_def)
  have h2: "runValidations sampleEngine Pre = Inr empty_result" by (simp add: engine_defs)
  have h3: "valid empty_result" by (simp add: empty_result_def)
  have h4: "3 < length (replacements samplePlan)" by (simp add: engine_defs)
  have h5: "?t (replacements samplePlan ! 3)" by (simp add: engine_defs)
  have h6: "critical (replacements samplePlan ! 3)" by (simp add: engine_defs)
  have h7: "no_critical_failure ?t (take 3 (replacements samplePlan))" by (simp add: engine_defs)
  have tk: "take 3 (replacements samplePlan) = take 3 sampleOperations"
    "take (Suc 3) (replacements samplePlan) = sampleOperations"
    by (simp_all add: samplePlan_def sampleOperations_def)
  show ?thesis
    using critical_failure_result[OF h1 h2 h3 h4 h5 h6 h7, of 100 250] h1 h2 h3 h4 h5 h6 h7
    unfolding tk
    by (simp add: sampleOperations_def throws_ids_def remove_dependency_def add_para_react_def
        replace_hook_def add_para_css_def sampleEngine_def all_complete_def)
qed

text \<open>
  Best-effort rollback fails on the engine whose inverse action of \<open>add-para-react\<close>
  throws: after the critical failure of the style insertion the rollback invokes three
  inverse actions and stops; the inverse action of \<open>remove-privy-deps\<close> is never invoked,
  and \<open>rollbackExecuted\<close> is false.
\<close>

theorem rollback_abort_counterexample:
  "executeAtomicMigration (throws_ids [''add-para-css-src/main.tsx'']) 100 250 engineWithRollback
     = Inr \<lparr>final_result =
              \<lparr>success = False,
               completedOperations = [''remove-privy-deps'', ''add-para-react'',
                                      ''replace-hook-src/App.tsx-7''],
               failedOperations = [''add-para-css-src/main.tsx''],
               validationResults = [\<lparr>valid = True, issues = [], warnings = []\<rparr>],
               rollbackExecuted = False, duration = 150,
               result_issues =
                 [\<lparr>severity = Critical, code = ''ROLLBACK_FAILED'',
                   message = ''Rollback failed: Error: EACCES'',
                   issue_file = None, issue_line = None,
                   issue_fix = Some ''Manual intervention required''\<rparr>]\<rparr>,
            events = [Apply ''remove-privy-deps'', Apply ''add-para-react'',
                      Apply ''replace-hook-src/App.tsx-7'', Apply ''add-para-css-src/main.tsx'',
                      Undo ''add-para-css-src/main.tsx'', Undo ''replace-hook-src/App.tsx-7'',
                      Undo ''add-para-react''],
            engine = engineWithRollback\<lparr>this_rollbackPlan := rev (this_rollbackPlan engineWithRollback)\<rparr>\<rparr>
   \<and> map operationId (this_rollbackPlan engineWithRollback)
       = [''remove-privy-deps'', ''add-para-react'', ''replace-hook-src/App.tsx-7'',
          ''add-para-css-src/main.tsx'']"
  by (simp add: engine_defs)

text \<open>
  With an invalid pre-flight check the result reports \<open>rollbackExecuted = true\<close>.
\<close>

theorem invalid_preflight_counterexample:
  "executeAtomicMigration (throws_ids []) 100 250 engineInvalidPre
     = Inr \<lparr>final_result =
              \<lparr>success = False, completedOperations = [], failedOperations = [],
               validationResults = [validatePreFlight plainProject],
               rollbackExecuted = True, duration = 150,
               result_issues = issues (validatePreFlight plainProject)\<rparr>,
            events = [],
            engine = engineInvalidPre\<rparr>
   \<and> \<not> valid (validatePreFlight plainProject)"
  by (simp add: engine_defs validatePreFlight_def checkMigratableContent_def
      checkProjectStructure_def checkForConflicts_def plainProject_def dependency_keys_def)


text \<open>
  The theorem on rollback at the same run.
\<close>

theorem rollback_abort_witness:
  "this_plan engineWithRollback = Some samplePlan
   \<and> try_block (throws_ids [''add-para-css-src/main.tsx'']) engineWithRollback samplePlan
        \<lparr>res = initial_result, trace = []\<rparr>
      = (Some ''Critical operation failed: add-para-css-src/main.tsx'',
         \<lparr>res = \<lparr>success = False,
                 completedOperations = [''remove-privy-deps'', ''add-para-react'',
                                        ''replace-hook-src/App.tsx-7''],
                 failedOperations = [''add-para-css-src/main.tsx''],
                 validationResults = [\<lparr>valid = True, issues = [], warnings = []\<rparr>],
                 rollbackExecuted = False, duration = 0, result_issues = []\<rparr>,
          trace = [Apply ''remove-privy-deps'', Apply ''add-para-react'',
                   Apply ''replace-hook-src/App.tsx-7'', Apply ''add-para-css-src/main.tsx'']\<rparr>)
   \<and> rev (this_rollbackPlan engineWithRollback)
       = [\<lparr>operationId = ''add-para-css-src/main.tsx'', action = Inr ()\<rparr>,
          \<lparr>operationId = ''replace-hook-src/App.tsx-7'', action = Inr ()\<rparr>]
         @ \<lparr>operationId = ''add-para-react'', action = Inl ''Error: EACCES''\<rparr>
         # [\<lparr>operationId = ''remove-privy-deps'', action = Inr ()\<rparr>]
   \<and> (\<exists>out. executeAtomicMigration (throws_ids [''add-para-css-src/main.tsx'']) 100 250
                engineWithRollback = Inr out
            \<and> undone (events out)
                = [''add-para-css-src/main.tsx'', ''replace-hook-src/App.tsx-7'', ''add-para-react'']
            \<and> \<not> rollbackExecuted (final_result out)
            \<and> result_issues (final_result out) = [rollback_failed ''Error: EACCES''])"
proof -
  let ?t = "throws_ids [''add-para-css-src/main.tsx'']"
  let ?r = "\<lparr>res = \<lparr>success = False,
                 completedOperations = [''remove-privy-deps'', ''add-para-react'',
                                        ''replace-hook-src/App.tsx-7''],
                 failedOperations = [''add-para-css-src/main.tsx''],
                 validationResults = [\<lparr>valid = True, issues = [], warnings = []\<rparr>],
                 rollbackExecuted = False, duration = 0, result_issues = []\<rparr>,
          trace = [Apply ''remove-privy-deps'', Apply ''add-para-react'',
                   Apply ''replace-hook-src/App.tsx-7'', Apply ''add-para-css-src/main.tsx'']\<rparr>"
  let ?ok = "[\<lparr>operationId = ''add-para-css-src/main.tsx'', action = Inr ()\<rparr>,
              \<lparr>operationId = ''replace-hook-src/App.tsx-7'', action = Inr ()\<rparr>]"
  let ?bad = "\<lparr>operationId = ''add-para-react'', action = Inl ''Error: EACCES''\<rparr>"
  let ?rest = "[\<lparr>operationId = ''remove-privy-deps'', action = Inr ()\<rparr>]"
  have h1: "this_plan engineWithRollback = Some samplePlan"
    by (simp add: engineWithRollback_def sampleEngine_def)
  have h2: "try_block ?t engineWithRollback samplePlan \<lparr>res = initial_result, trace = []\<rparr>
              = (Some ''Critical operation failed: add-para-css-src/main.tsx'', ?r)"
    by (simp add: engine_defs)
  have h3: "rev (this_rollbackPlan engineWithRollback) = ?ok @ ?bad # ?rest"
    by (simp add: engineWithRollback_def)
  have h4: "all_complete ?ok" by (simp add: all_complete_def)
  have h5: "action ?bad = Inl ''Error: EACCES''" by simp
  obtain out where
    ex: "executeAtomicMigration ?t 100 250 engineWithRollback = Inr out"
    and imp: "\<forall>ok bad rest msg.
                rev (this_rollbackPlan engineWithRollback) = ok @ bad # rest
                \<and> all_complete ok \<and> action bad = Inl msg
                \<longrightarrow> undone (events out) = map operationId (ok @ [bad])
                    \<and> \<not> rollbackExecuted (final_result out)
                    \<and> result_issues (final_result out) = result_issues (res ?r) @ [rollback_failed msg]"
    using rollback_stops_at_first_failing_action[OF h1 h2, of 100 250] by blast
  have "undone (events out) = map operationId (?ok @ [?bad])
        \<and> \<not> rollbackExecuted (final_result out)
        \<and> result_issues (final_result out) = result_issues (res ?r) @ [rollback_failed ''Error: EACCES'']"
    using imp h3 h4 h5 by blast
  then show ?thesis using ex h1 h2 h3 by simp
qed

text \<open>
  The theorem on non-critical failures at the sample engine when only the hook rewrite throws.
\<close>

theorem noncritical_failures_witness:
  "this_plan sampleEngine = Some samplePlan
   \<and> runValidations sampleEngine Pre = Inr empty_result
   \<and> runValidations sampleEngine Post = Inr empty_result
   \<and> valid empty_result
   \<and> 2 < length (replacements samplePlan)
   \<and> throws_ids [''replace-hook-src/App.tsx-7''] (replacements samplePlan ! 2)
   \<and> \<not> critical (replacements samplePlan ! 2)
   \<and> no_critical_failure (throws_ids [''replace-hook-src/App.tsx-7'']) (replacements samplePlan)
   \<and> (\<exists>out. executeAtomicMigration (throws_ids [''replace-hook-src/App.tsx-7'']) 100 250 sampleEngine
              = Inr out
            \<and> ''replace-hook-src/App.tsx-7'' \<in> set (failedOperations (final_result out))
            \<and> success (final_result out)
            \<and> \<not> rollbackExecuted (final_result out)
            \<and> failedOperations (final_result out) = [''replace-hook-src/App.tsx-7'']
            \<and> completedOperations (final_result out)
                = [''remove-privy-deps'', ''add-para-react'', ''add-para-css-src/main.tsx'']
            \<and> applied (events out) = [''remove-privy-deps'', ''add-para-react'',
                 ''replace-hook-src/App.tsx-7'', ''add-para-css-src/main.tsx'']
            \<and> undone (events out) = [])"
proof -
  let ?t = "throws_ids [''replace-hook-src/App.tsx-7'']"
  have h1: "this_plan sampleEngine = Some samplePlan" by (simp add: sampleEngine_def)
  have h2: "runValidations sampleEngine Pre = Inr empty_result" by (simp add: engine_defs)
  have h3: "valid empty_result" by (simp add: empty_result_def)
  have h4: "runValidations sampleEngine Post = Inr empty_result" by (simp add: engine_defs)
  have h5: "no_critical_failure ?t (replacements samplePlan)" by (simp add: engine_defs)
  have h6: "2 < length (replacements samplePlan)" by (simp add: engine_defs)
  have h7: "?t (replacements samplePlan ! 2)" by (simp add: engine_defs)
  have h8: "\<not> critical (replacements samplePlan ! 2)" by (simp add: engine_defs)
  have h9: "no_critical_failure ?t (take 2 (replacements samplePlan))" by (simp add: engine_defs)
  have lists:
    "map op_id (filter ?t (replacements samplePlan)) = [''replace-hook-src/App.tsx-7'']"
    "map op_id (filter (\<lambda>p. \<not> ?t p) (replacements samplePlan))
       = [''remove-privy-deps'', ''add-para-react'', ''add-para-css-src/main.tsx'']"
    "map op_id (replacements samplePlan)
       = [''remove-privy-deps'', ''add-para-react'', ''replace-hook-src/App.tsx-7'',
          ''add-para-css-src/main.tsx'']"
    "op_id (replacements samplePlan ! 2) = ''replace-hook-src/App.tsx-7''"
    by (simp_all add: engine_defs)
  have "\<exists>out. executeAtomicMigration ?t 100 250 sampleEngine = Inr out
            \<and> ''replace-hook-src/App.tsx-7'' \<in> set (failedOperations (final_result out))
            \<and> success (final_result out)
            \<and> \<not> rollbackExecuted (final_result out)
            \<and> failedOperations (final_result out) = [''replace-hook-src/App.tsx-7'']
            \<and> completedOperations (final_result out)
                = [''remove-privy-deps'', ''add-para-react'', ''add-para-css-src/main.tsx'']
            \<and> applied (events out) = [''remove-privy-deps'', ''add-para-react'',
                 ''replace-hook-src/App.tsx-7'', ''add-para-css-src/main.tsx'']
            \<and> undone (events out) = []"
    using noncritical_failures_tolerated[OF h1 h2 h3 h6 h7 h8 h9, of 100 250 empty_result] h5 h4 h3
    unfolding lists by blast
  then show ?thesis using h1 h2 h3 h4 h5 h6 h7 h8 by blast
qed

text \<open>
  The theorem on invalid pre-flight validation at the same run.
\<close>

theorem invalid_preflight_witness:
  "this_plan engineInvalidPre
     = Some (samplePlan\<lparr>validations :=
         [\<lparr>vc_id = ''pre-flight'', vc_type = Pre, description = ''Pre-flight validation'',
           validator = Inr (validatePreFlight plainProject)\<rparr>]\<rparr>)
   \<and> runValidations engineInvalidPre Pre = Inr (validatePreFlight plainProject)
   \<and> \<not> valid (validatePreFlight plainProject)
   \<and> (\<exists>out. executeAtomicMigration (throws_ids []) 100 250 engineInvalidPre = Inr out
            \<and> \<not> success (final_result out)
            \<and> completedOperations (final_result out) = []
            \<and> failedOperations (final_result out) = []
            \<and> applied (events out) = []
            \<and> validationResults (final_result out) = [validatePreFlight plainProject]
            \<and> result_issues (final_result out) = issues (validatePreFlight plainProject)
            \<and> rollbackExecuted (final_result out))"
proof -
  have nv: "\<not> valid (validatePreFlight plainProject)"
    by (simp add: validatePreFlight_def checkMigratableContent_def checkProjectStructure_def
        checkForConflicts_def plainProject_def dependency_keys_def absorb_def empty_result_def)
  have h1: "this_plan engineInvalidPre
     = Some (samplePlan\<lparr>validations :=
         [\<lparr>vc_id = ''pre-flight'', vc_type = Pre, description = ''Pre-flight validation'',
           validator = Inr (validatePreFlight plainProject)\<rparr>]\<rparr>)"
    by (simp add: engineInvalidPre_def sampleEngine_def)
  have h2: "runValidations engineInvalidPre Pre = Inr (validatePreFlight plainProject)"
  proof -
    have "runValidations engineInvalidPre Pre
            = Inr ((absorb empty_result (validatePreFlight plainProject))
                     \<lparr>warnings := warnings (absorb empty_result (validatePreFlight plainProject))
                                   @ warnings (validatePreFlight plainProject)\<rparr>)"
      by (simp add: runValidations_def engineInvalidPre_def sampleEngine_def samplePlan_def)
    also have "\<dots> = Inr (validatePreFlight plainProject)"
      using nv by (cases "validatePreFlight plainProject") (simp add: absorb_def empty_result_def)
    finally show ?thesis .
  qed
  have ac: "all_complete (this_rollbackPlan engineInvalidPre)"
    by (simp add: all_complete_def engineInvalidPre_def sampleEngine_def)
  obtain out extra where
    o: "executeAtomicMigration (throws_ids []) 100 250 engineInvalidPre = Inr out"
       "\<not> success (final_result out)"
       "completedOperations (final_result out) = []"
       "failedOperations (final_result out) = []"
       "applied (events out) = []"
       "validationResults (final_result out) = [validatePreFlight plainProject]"
       "result_issues (final_result out) = issues (validatePreFlight plainProject) @ extra"
       "rollbackExecuted (final_result out) \<longrightarrow> extra = []"
       "rollbackExecuted (final_result out) \<longleftrightarrow> all_complete (this_rollbackPlan engineInvalidPre)"
    using invalid_preflight_result[OF h1 h2 nv, of "throws_ids []" 100 250] by blast
  then show ?thesis using h1 h2 nv ac by auto
qed

section \<open>Properties of the WalletConnect strategy\<close>

lemma detectStrategy_range:
  "detectStrategy st \<in> {None, Some PRIVY_TO_PARA, Some REOWN_TO_PARA, Some WEB3MODAL_TO_PARA}"
  by (simp add: detectStrategy_def Let_def)

lemma walletconnect_only_no_fingerprint:
  "walletconnect_only st \<Longrightarrow> no_fingerprint st \<and> has_walletconnect_dependency st"
  by (auto simp: walletconnect_only_def no_fingerprint_def has_walletconnect_dependency_def
      fingerprint_def list_ex_iff)

lemma valid_checkProjectStructure: "valid (checkProjectStructure st) = (entryPoints st \<noteq> [])"
  by (simp add: checkProjectStructure_def empty_result_def Let_def)

lemma checkMigratableContent_walletconnect:
  assumes "has_walletconnect_dependency st"
  shows "checkMigratableContent st = empty_result"
proof -
  obtain d where "d \<in> set (dependency_keys st)" "str_includes d ''walletconnect''"
    using assms by (auto simp: has_walletconnect_dependency_def list_ex_iff)
  then have "d \<in> set (filter (\<lambda>dep. str_includes dep ''privy'' \<or> str_includes dep ''reown''
                            \<or> str_includes dep ''web3modal'' \<or> str_includes dep ''walletconnect'')
                    (dependency_keys st))" by simp
  then have "filter (\<lambda>dep. str_includes dep ''privy'' \<or> str_includes dep ''reown''
                            \<or> str_includes dep ''web3modal'' \<or> str_includes dep ''walletconnect'')
                    (dependency_keys st) \<noteq> []" by force
  then show ?thesis by (simp add: checkMigratableContent_def)
qed

lemma valid_checkForConflicts: "valid (checkForConflicts st)"
  by (simp add: checkForConflicts_def empty_result_def Let_def)

lemma createReplacementPlan_walletconnect:
  assumes "this_state eng = Some s"
  shows "createReplacementPlan WALLETCONNECT_TO_PARA eng
           = Inr (walletconnectPlan, eng\<lparr>this_plan := Some walletconnectPlan\<rparr>)"
  using assms
  by (simp add: createReplacementPlan_def walletconnectPlan_def generateReplacements_def
      generateRollbackPlan_def estimateTime_def Let_def)

text \<open>
  Claim C10 (amended). \<open>walletconnect-to-para\<close> is a member of the strategy enum and a
  dependency name containing \<open>walletconnect\<close> satisfies the migratable-content check; yet
  \<open>detectStrategy\<close> never returns that strategy and \<open>createStrategy\<close> throws
  \<open>Unsupported migration strategy\<close> for it. So for a project whose only wallet dependency
  is WalletConnect no strategy is detected and the factory creates none, while pre-flight
  validation passes exactly when the project has an entry point. The engine's
  \<open>createReplacementPlan\<close> does not consult the factory: after a scan it builds a plan
  for \<open>walletconnect-to-para\<close>, without operations.
\<close>

theorem walletconnect_accepted_but_no_strategy:
  "strategy_value WALLETCONNECT_TO_PARA = ''walletconnect-to-para''
   \<and> (has_walletconnect_dependency st
        \<longrightarrow> valid (checkMigratableContent st) \<and> issues (checkMigratableContent st) = [])
   \<and> detectStrategy st' \<noteq> Some WALLETCONNECT_TO_PARA
   \<and> createStrategy WALLETCONNECT_TO_PARA = Inl ''Unsupported migration strategy: walletconnect-to-para''
   \<and> (walletconnect_only st
        \<longrightarrow> detectStrategy st = None
            \<and> (valid (validatePreFlight st) \<longleftrightarrow> entryPoints st \<noteq> []))
   \<and> (this_state eng = Some s
        \<longrightarrow> createReplacementPlan WALLETCONNECT_TO_PARA eng
              = Inr (walletconnectPlan, eng\<lparr>this_plan := Some walletconnectPlan\<rparr>)
            \<and> strategy walletconnectPlan = WALLETCONNECT_TO_PARA
            \<and> replacements walletconnectPlan = [])"
proof -
  have a: "valid (checkMigratableContent st) \<and> issues (checkMigratableContent st) = []"
    if "has_walletconnect_dependency st"
    using checkMigratableContent_walletconnect[OF that] by (simp add: empty_result_def)
  have b: "detectStrategy st' \<noteq> Some WALLETCONNECT_TO_PARA"
    using detectStrategy_range[of st'] by auto
  have c: "detectStrategy st = None \<and> (valid (validatePreFlight st) \<longleftrightarrow> entryPoints st \<noteq> [])"
    if w: "walletconnect_only st"
  proof -
    have nf: "no_fingerprint st" and hw: "has_walletconnect_dependency st"
      using walletconnect_only_no_fingerprint[OF w] by simp_all
    have "valid (checkMigratableContent st)" using a[OF hw] by simp
    then have "valid (validatePreFlight st) \<longleftrightarrow> entryPoints st \<noteq> []"
      by (simp add: valid_validatePreFlight valid_checkProjectStructure valid_checkForConflicts)
    then show ?thesis using detectStrategy_None_if[OF nf] by simp
  qed
  have d: "createReplacementPlan WALLETCONNECT_TO_PARA eng
              = Inr (walletconnectPlan, eng\<lparr>this_plan := Some walletconnectPlan\<rparr>)
            \<and> strategy walletconnectPlan = WALLETCONNECT_TO_PARA
            \<and> replacements walletconnectPlan = []"
    if "this_state eng = Some s"
    using createReplacementPlan_walletconnect[OF that] by (simp add: walletconnectPlan_def)
  show ?thesis using a b c d by simp
qed

lemma wc_only: "walletconnect_only walletconnectOnly"
  by (simp add: walletconnect_only_def walletconnectOnly_def dependency_keys_def)

text \<open>
  The theorem above at a project with the dependency \<open>@walletconnect/web3-provider\<close> and
  one entry point, and at a new engine after its scan.
\<close>

theorem walletconnect_witness:
  "walletconnect_only walletconnectOnly \<and> has_walletconnect_dependency walletconnectOnly
   \<and> entryPoints walletconnectOnly \<noteq> []
   \<and> this_state (snd (scanProjectState ''.'' new_engine)) = this_state walletconnectEngine
   \<and> valid (checkMigratableContent walletconnectOnly)
   \<and> valid (validatePreFlight walletconnectOnly)
   \<and> detectStrategy walletconnectOnly = None
   \<and> createStrategy WALLETCONNECT_TO_PARA = Inl ''Unsupported migration strategy: walletconnect-to-para''
   \<and> createReplacementPlan WALLETCONNECT_TO_PARA (snd (scanProjectState ''.'' new_engine))
       = Inr (walletconnectPlan, walletconnectEngine)"
proof -
  have e: "entryPoints walletconnectOnly \<noteq> []" by (simp add: walletconnectOnly_def)
  have l: "has_walletconnect_dependency walletconnectOnly"
    using walletconnect_only_no_fingerprint[OF wc_only] by simp
  have sc: "this_state (snd (scanProjectState ''.'' new_engine)) = this_state walletconnectEngine"
    by (simp add: scanProjectState_def new_engine_def walletconnectEngine_def Let_def)
  have sc': "this_state (snd (scanProjectState ''.'' new_engine))
               = Some \<lparr>dependencies = [], st_imports = [], providers = [], hooks = [],
                       styles = [], entryPoints = []\<rparr>"
    by (simp add: scanProjectState_def new_engine_def Let_def)
  have en: "(snd (scanProjectState ''.'' new_engine))\<lparr>this_plan := Some walletconnectPlan\<rparr>
              = walletconnectEngine"
    by (simp add: scanProjectState_def new_engine_def walletconnectEngine_def Let_def)
  show ?thesis
    using walletconnect_accepted_but_no_strategy
            [where st = walletconnectOnly and st' = walletconnectOnly
               and eng = "snd (scanProjectState ''.'' new_engine)"
               and s = "\<lparr>dependencies = [], st_imports = [], providers = [], hooks = [],
                         styles = [], entryPoints = []\<rparr>"]
          wc_only e l sc sc' en
    by simp
qed

text \<open>
  The original wording fails twice. A plan is constructed: a new engine, after its scan,
  builds the plan for \<open>walletconnect-to-para\<close>, and executing it ends in success. And a
  project whose only wallet dependency is WalletConnect but that has no entry point does
  not pass pre-flight validation.
\<close>

theorem walletconnect_plan_counterexample:
  "createReplacementPlan WALLETCONNECT_TO_PARA (snd (scanProjectState ''.'' new_engine))
     = Inr (walletconnectPlan, walletconnectEngine)
   \<and> executeAtomicMigration (throws_ids []) 100 250 walletconnectEngine
     = Inr \<lparr>final_result =
              \<lparr>success = True, completedOperations = [], failedOperations = [],
               validationResults = [\<lparr>valid = True, issues = [], warnings = []\<rparr>,
                                    \<lparr>valid = True, issues = [], warnings = []\<rparr>],
               rollbackExecuted = False, duration = 150, result_issues = []\<rparr>,
            events = [], engine = walletconnectEngine\<rparr>
   \<and> walletconnect_only walletconnectNoEntry
   \<and> \<not> valid (validatePreFlight walletconnectNoEntry)"
  by (simp add: createReplacementPlan_def scanProjectState_def new_engine_def
      walletconnectEngine_def walletconnectPlan_def generateReplacements_def
      generateRollbackPlan_def estimateTime_def Let_def
      executeAtomicMigration_def try_block_def runValidations_def generateValidations_def
      initial_result_def empty_result_def absorb_def throws_ids_def
      walletconnect_only_def walletconnectNoEntry_def dependency_keys_def
      validatePreFlight_def checkMigratableContent_def checkProjectStructure_def
      checkForConflicts_def)

end
